theory Spec2Isabelle
  imports Main "HOL-Library.Word"
begin

section \<open>Go values shared by the packages\<close>

text \<open>
  Go strings are byte sequences, so a Go string is a \<open>string\<close> (a list of 8-bit
  characters). A \<open>time.Time\<close> is represented by an integer instant, counted in
  nanoseconds from the zero value \<open>time.Time{}\<close>, which is therefore \<open>0\<close>. Go's \<open>int\<close>
  values that are only compared, or that are lengths and indices of slices, are
  integers; the identifier counter of the message store is the 64-bit machine integer
  the source declares. A \<open>float32\<close> or \<open>float64\<close> is its bit pattern: this code never
  calculates with one.
\<close>

type_synonym time = int
type_synonym int64 = "64 word"
type_synonym float32 = "32 word"
type_synonym float64 = "64 word"

text \<open>The verb \<open>%d\<close> of \<open>fmt.Sprintf\<close>.\<close>

fun digits :: "nat \<Rightarrow> string" where
  "digits n =
     (if n < 10 then [''0123456789'' ! n]
      else digits (n div 10) @ [''0123456789'' ! (n mod 10)])"

definition Sprintf_d :: "int \<Rightarrow> string" where
  "Sprintf_d i = (if i < 0 then ''-'' @ digits (nat (- i)) else digits (nat i))"

text \<open>
  The Go \<open>error\<close> values the modelled functions return. \<open>ErrInvalid\<close> is
  \<open>os.ErrInvalid\<close>, \<open>Wrapf p e\<close> is \<open>fmt.Errorf(p + ": %w", e)\<close>, \<open>Errorf m\<close> is an
  error made from a message only, \<open>StatusError p status text\<close> is the error built from
  a response whose status is not 200 (\<open>p + ": status=%d, body=%s"\<close>), and \<open>External d\<close>
  is an error handed over by the operating system or by Go's standard library, with
  its text. \<open>error_text\<close> is the method \<open>Error\<close>.
\<close>

datatype error =
    ErrInvalid
  | Errorf string
  | Wrapf string error
  | StatusError string nat string
  | External string

fun error_text :: "error \<Rightarrow> string" where
  "error_text ErrInvalid = ''invalid argument''"
| "error_text (Errorf m) = m"
| "error_text (Wrapf p e) = p @ '': '' @ error_text e"
| "error_text (StatusError p status body) =
     p @ '': status='' @ Sprintf_d (int status) @ '', body='' @ body"
| "error_text (External d) = d"

text \<open>\<open>providers.Message\<close> with the fields the session and storage packages use.\<close>

record FunctionCall =
  fc_Name :: string
  fc_Arguments :: string

record ToolCall =
  tc_ID :: string
  tc_Type :: string
  tc_Name :: string
  tc_Function :: "FunctionCall option"

record Message =
  Role :: string
  Content :: string
  ToolCalls :: "ToolCall list"
  ToolCallID :: string

text \<open>\<open>session.Session\<close>.\<close>

record Session =
  Key :: string
  Messages :: "Message list"
  Summary :: string
  Created :: time
  Updated :: time

text \<open>
  A value of type \<open>any\<close> as it occurs in a \<open>map[string]any\<close>: what the JSON decoder
  produces (nil, bool, float64, string, slices and nested maps), and the Go \<open>int\<close> a
  caller may put into tool arguments directly.
\<close>

datatype any =
    ANil
  | ABool bool
  | AInt int
  | AFloat64 float64
  | AString string
  | ASlice "any list"
  | AMap "(string \<times> any) list"

section \<open>Path handling of Go's standard library (Unix)\<close>

text \<open>
  \<open>strings.ReplaceAll\<close> for a single byte, \<open>strings.ContainsAny\<close> for a set of ASCII
  bytes, and \<open>strings.Split\<close> at the path separator.
\<close>

definition ReplaceAll_char :: "string \<Rightarrow> char \<Rightarrow> char \<Rightarrow> string" where
  "ReplaceAll_char s old new = map (\<lambda>c. if c = old then new else c) s"

definition ContainsAny :: "string \<Rightarrow> string \<Rightarrow> bool" where
  "ContainsAny s chars = (\<exists>c \<in> set s. c \<in> set chars)"

fun split_slash :: "string \<Rightarrow> string list" where
  "split_slash [] = [[]]"
| "split_slash (c # cs) =
     (if c = CHR ''/'' then [] # split_slash cs
      else (case split_slash cs of
              [] \<Rightarrow> [[c]]
            | p # ps \<Rightarrow> (c # p) # ps))"

fun join_slash :: "string list \<Rightarrow> string" where
  "join_slash [] = []"
| "join_slash [p] = p"
| "join_slash (p # q # ps) = p @ ''/'' @ join_slash (q # ps)"

text \<open>
  \<open>filepath.Clean\<close>: empty and \<open>.\<close> elements are dropped, a \<open>..\<close> element removes
  the element before it when that is an ordinary name, is dropped at the root of a
  rooted path, and is kept otherwise; the empty result is \<open>.\<close>.
\<close>

definition clean_step :: "bool \<Rightarrow> string list \<Rightarrow> string \<Rightarrow> string list" where
  "clean_step rooted out elem =
     (if elem = [] \<or> elem = ''.'' then out
      else if elem = ''..'' then
        (if out \<noteq> [] \<and> last out \<noteq> ''..'' then butlast out
         else if \<not> rooted then out @ [''..'']
         else out)
      else out @ [elem])"

definition Clean :: "string \<Rightarrow> string" where
  "Clean path =
     (if path = [] then ''.''
      else
        let rooted = (hd path = CHR ''/'');
            out = foldl (clean_step rooted) [] (split_slash path);
            s = (if rooted then ''/'' else []) @ join_slash out
        in if s = [] then ''.'' else s)"

text \<open>\<open>filepath.Join\<close> of two elements.\<close>

definition Join :: "string \<Rightarrow> string \<Rightarrow> string" where
  "Join a b =
     (if a \<noteq> [] then Clean (a @ ''/'' @ b)
      else if b \<noteq> [] then Clean b
      else [])"

text \<open>
  \<open>filepath.IsLocal\<close>: false for the empty path and for an absolute one; a path with
  a \<open>.\<close> or \<open>..\<close> element is cleaned first; false when the path then is \<open>..\<close> or
  starts with \<open>../\<close>.
\<close>

definition IsLocal :: "string \<Rightarrow> bool" where
  "IsLocal path =
     (if path = [] \<or> hd path = CHR ''/'' then False
      else
        let parts = split_slash path;
            hasDots = (''.'' \<in> set parts \<or> ''..'' \<in> set parts);
            p = (if hasDots then Clean path else path)
        in \<not> (p = ''..'' \<or> take 3 p = ''../''))"

section \<open>What lies outside the program\<close>

text \<open>
  The vector database and the embedding service are reached over HTTP. A request is
  recorded by what the code puts into it; a response is either a transport failure or a
  status with a body, and a body is its text together with what decoding it into the
  expected Go struct yields (\<open>None\<close> when the decoder fails).
\<close>

record Point =
  pt_ID :: int64
  pt_Vector :: "float32 list"
  pt_Payload :: "string \<rightharpoonup> any"

record ScoredPoint =
  sp_ID :: int64
  sp_Version :: int64
  sp_Score :: float32
  sp_Payload :: "string \<rightharpoonup> any"
  sp_Vector :: "float32 list"

datatype request =
    PostEmbeddings string string string "string list"
  | GetCollection string string
  | PutCollection string string int
  | PutPoints string string "Point list"
  | PostSearch string string "float32 list" int "string option"
  | PostDelete string string string

text \<open>
  The values the clients hand to \<open>json.Marshal\<close> as request bodies: the embedding
  request (model and input), the request that creates a collection (vector size), the
  upsert request (points), the search request (vector, limit, and the session key of
  the filter, if any), and the delete request (session key).
\<close>

datatype request_body =
    EmbeddingRequest string "string list"
  | CreateCollectionRequest int
  | UpsertRequest "Point list"
  | SearchRequest "float32 list" int "string option"
  | DeleteRequest string

record body =
  body_text :: string
  embedding_data :: "float32 list list option"
  search_result :: "ScoredPoint list option"

datatype response =
    TransportError string
  | Response nat body

text \<open>The calls into the file system that \<open>Save\<close> makes.\<close>

datatype syscall =
    SysCreateTemp string string
  | SysWrite string
  | SysChmod string
  | SysSync string
  | SysClose string
  | SysRename string string
  | SysRemove string

text \<open>
  The world holds what the program has done to its surroundings so far (the requests
  sent, the files, the lines on standard error, the number of clock readings) and how
  the surroundings answer: \<open>respond\<close> gives the reply to a request after the requests
  before it, \<open>marshal_error\<close> the failure of \<open>json.Marshal\<close> on a request body,
  \<open>url_error\<close> the failure of \<open>http.NewRequestWithContext\<close> on a URL it cannot parse,
  \<open>now_at\<close> the clock at each reading, \<open>io_fail\<close> the failure of a file system call, if
  any, and \<open>temp_name\<close> the name \<open>os.CreateTemp\<close> chooses.
\<close>

record world =
  sent :: "request list"
  respond :: "request list \<Rightarrow> request \<Rightarrow> response"
  marshal_error :: "request_body \<Rightarrow> error option"
  url_error :: "string \<Rightarrow> error option"
  ticks :: nat
  now_at :: "nat \<Rightarrow> time"
  files :: "string \<rightharpoonup> string"
  io_fail :: "syscall \<Rightarrow> error option"
  temp_name :: "string \<Rightarrow> string \<Rightarrow> string"
  stderr :: "string list"

definition http_Do :: "request \<Rightarrow> world \<Rightarrow> response \<times> world" where
  "http_Do req w = (respond w (sent w) req, w\<lparr>sent := sent w @ [req]\<rparr>)"

definition time_Now :: "world \<Rightarrow> time \<times> world" where
  "time_Now w = (now_at w (ticks w), w\<lparr>ticks := Suc (ticks w)\<rparr>)"

text \<open>
  The conversions of Go's standard library whose results this development does not
  compute: \<open>Time.MarshalJSON\<close> (which fails for a year outside 0..9999) and
  \<open>Time.UnmarshalJSON\<close> on the text of a JSON string, the \<open>float64\<close> that the JSON
  decoder makes of an integer literal, the integer that the decoder reads from the
  literal a \<open>float64\<close> is encoded as (none when the literal is not an integer that fits),
  the result of the conversion \<open>int(v)\<close> of a \<open>float64\<close> whose integer part no \<open>int\<close>
  holds (Go leaves it to the implementation), and \<open>json.MarshalIndent\<close> of a session.
\<close>

record stdlib =
  time_MarshalJSON :: "time \<Rightarrow> string option"
  time_UnmarshalJSON :: "string \<Rightarrow> time option"
  float64_of_literal :: "int \<Rightarrow> float64"
  int_of_float64_literal :: "float64 \<Rightarrow> int option"
  int_of_float64 :: "float64 \<Rightarrow> int"
  MarshalIndent :: "Session \<Rightarrow> error + string"

text \<open>
  A function that can panic returns \<open>Panic\<close> with the reason in place of its results.
\<close>

datatype 'a go = Return 'a | Panic string

section \<open>JSON strings\<close>

text \<open>
  \<open>json.Marshal\<close> writes a Go string as a JSON string coerced to valid UTF-8: it
  decodes the string rune by rune (\<open>utf8.DecodeRuneInString\<close>) and writes the
  replacement character U+FFFD for every byte that does not start a valid encoding.
  Everything else it escapes is read back unchanged by the decoder. \<open>rune_len\<close> is the
  width of the valid encoding at the head of a string, and \<open>0\<close> where the decoder
  reports an invalid byte; \<open>json_text s\<close> is the string a decoder reads from the
  encoding of \<open>s\<close>.
\<close>

definition in_range :: "nat \<Rightarrow> nat \<Rightarrow> char \<Rightarrow> bool" where
  "in_range lo hi c \<longleftrightarrow> lo \<le> of_char c \<and> of_char c \<le> hi"

definition second_lo :: "nat \<Rightarrow> nat" where
  "second_lo x = (if x = 0xE0 then 0xA0 else if x = 0xF0 then 0x90 else 0x80)"

definition second_hi :: "nat \<Rightarrow> nat" where
  "second_hi x = (if x = 0xED then 0x9F else if x = 0xF4 then 0x8F else 0xBF)"

fun rune_len :: "string \<Rightarrow> nat" where
  "rune_len [] = 0"
| "rune_len (a # rest) =
     (let x = (of_char a :: nat) in
      if x < 0x80 then 1
      else if 0xC2 \<le> x \<and> x \<le> 0xDF then
        (case rest of
           b # _ \<Rightarrow> if in_range 0x80 0xBF b then 2 else 0
         | _ \<Rightarrow> 0)
      else if 0xE0 \<le> x \<and> x \<le> 0xEF then
        (case rest of
           b # c # _ \<Rightarrow>
             if in_range (second_lo x) (second_hi x) b \<and> in_range 0x80 0xBF c then 3 else 0
         | _ \<Rightarrow> 0)
      else if 0xF0 \<le> x \<and> x \<le> 0xF4 then
        (case rest of
           b # c # d # _ \<Rightarrow>
             if in_range (second_lo x) (second_hi x) b \<and> in_range 0x80 0xBF c
                \<and> in_range 0x80 0xBF d then 4 else 0
         | _ \<Rightarrow> 0)
      else 0)"

definition replacement_char :: string where
  "replacement_char = [CHR 0xEF, CHR 0xBF, CHR 0xBD]"

function json_text :: "string \<Rightarrow> string" where
  "json_text [] = []"
| "json_text (c # cs) =
     (let n = rune_len (c # cs) in
      if n = 0 then replacement_char @ json_text cs
      else take n (c # cs) @ json_text (drop n (c # cs)))"
  by pat_completeness auto
termination
  by (relation "measure length") auto

text \<open>\<open>utf8.ValidString\<close>.\<close>

function ValidString :: "string \<Rightarrow> bool" where
  "ValidString [] = True"
| "ValidString (c # cs) =
     (let n = rune_len (c # cs) in
      if n = 0 then False else ValidString (drop n (c # cs)))"
  by pat_completeness auto
termination
  by (relation "measure length") auto

section \<open>Package storage: the embedding client\<close>

text \<open>The interface \<open>EmbeddingClient\<close>: its two methods, acting on the world.\<close>

record EmbeddingClient =
  GenerateEmbedding :: "string \<Rightarrow> world \<Rightarrow> (error + float32 list) \<times> world"
  GenerateEmbeddingsBatch ::
    "string list \<Rightarrow> world \<Rightarrow> (error + float32 list list) \<times> world"

record MistralEmbeddingClient =
  apiKey :: string
  apiBase :: string
  model :: string

definition NewMistralEmbeddingClient ::
  "string \<Rightarrow> string \<Rightarrow> string \<Rightarrow> MistralEmbeddingClient" where
  "NewMistralEmbeddingClient key base mdl =
     \<lparr>apiKey = key,
      apiBase = (if base = [] then ''https://api.mistral.ai/v1'' else base),
      model = (if mdl = [] then ''mistral-embed'' else mdl)\<rparr>"

definition Mistral_GenerateEmbedding ::
  "MistralEmbeddingClient \<Rightarrow> string \<Rightarrow> world \<Rightarrow> (error + float32 list) \<times> world" where
  "Mistral_GenerateEmbedding c txt w =
     (if apiKey c = [] then (Inl (Errorf ''Mistral API key is not configured''), w)
      else
        let url = apiBase c @ ''/embeddings'';
            req = PostEmbeddings url (apiKey c) (model c) [txt]
        in case marshal_error w (EmbeddingRequest (model c) [txt]) of
             Some e \<Rightarrow> (Inl (Wrapf ''failed to marshal embedding request'' e), w)
           | None \<Rightarrow>
        (case url_error w url of
             Some e \<Rightarrow> (Inl (Wrapf ''failed to create request'' e), w)
           | None \<Rightarrow>
        (case http_Do req w of
           (TransportError d, w') \<Rightarrow>
             (Inl (Wrapf ''failed to generate embedding'' (External d)), w')
         | (Response status b, w') \<Rightarrow>
             if status \<noteq> 200 then
               (Inl (StatusError ''failed to generate embedding'' status (body_text b)), w')
             else
               (case embedding_data b of
                  None \<Rightarrow>
                    (Inl (Wrapf ''failed to decode embedding response''
                            (External ''json'')), w')
                | Some [] \<Rightarrow>
                    (Inl (Errorf ''no embeddings returned from Mistral API''), w')
                | Some (v # _) \<Rightarrow> (Inr v, w')))))"

definition Mistral_GenerateEmbeddingsBatch ::
  "MistralEmbeddingClient \<Rightarrow> string list \<Rightarrow> world
     \<Rightarrow> (error + float32 list list) \<times> world" where
  "Mistral_GenerateEmbeddingsBatch c texts w =
     (if apiKey c = [] then (Inl (Errorf ''Mistral API key is not configured''), w)
      else if length texts = 0 then (Inr [], w)
      else
        let url = apiBase c @ ''/embeddings'';
            req = PostEmbeddings url (apiKey c) (model c) texts
        in case marshal_error w (EmbeddingRequest (model c) texts) of
             Some e \<Rightarrow> (Inl (Wrapf ''failed to marshal embedding request'' e), w)
           | None \<Rightarrow>
        (case url_error w url of
             Some e \<Rightarrow> (Inl (Wrapf ''failed to create request'' e), w)
           | None \<Rightarrow>
        (case http_Do req w of
           (TransportError d, w') \<Rightarrow>
             (Inl (Wrapf ''failed to generate embeddings'' (External d)), w')
         | (Response status b, w') \<Rightarrow>
             if status \<noteq> 200 then
               (Inl (StatusError ''failed to generate embeddings'' status (body_text b)), w')
             else
               (case embedding_data b of
                  None \<Rightarrow>
                    (Inl (Wrapf ''failed to decode embedding response''
                            (External ''json'')), w')
                | Some vs \<Rightarrow> (Inr vs, w')))))"

text \<open>A \<open>*MistralEmbeddingClient\<close> used as an \<open>EmbeddingClient\<close>.\<close>

definition Mistral :: "MistralEmbeddingClient \<Rightarrow> EmbeddingClient" where
  "Mistral c =
     \<lparr>GenerateEmbedding = Mistral_GenerateEmbedding c,
      GenerateEmbeddingsBatch = Mistral_GenerateEmbeddingsBatch c\<rparr>"

section \<open>Package storage: the vector database client\<close>

text \<open>\<open>config.QdrantConfig\<close> and \<open>config.StorageConfig\<close>, with the fields the code reads.\<close>

record QdrantConfig =
  Enabled :: bool
  Host :: string
  Port :: int
  GRPCPort :: int
  APIKey :: string
  Collection :: string
  VectorSize :: int
  Secure :: bool

record EmbeddingConfig =
  emb_APIKey :: string
  emb_APIBase :: string
  emb_Model :: string

record StorageConfig =
  Qdrant :: QdrantConfig
  Embedding :: EmbeddingConfig

record QdrantClient =
  config :: QdrantConfig
  baseURL :: string

definition NewQdrantClient :: "QdrantConfig \<Rightarrow> QdrantClient" where
  "NewQdrantClient cfg =
     (let protocol = (if Secure cfg then ''https'' else ''http'')
      in \<lparr>config = cfg,
          baseURL = protocol @ ''://'' @ Host cfg @ '':'' @ Sprintf_d (Port cfg)\<rparr>)"

definition collection_url :: "QdrantClient \<Rightarrow> string" where
  "collection_url c = baseURL c @ ''/collections/'' @ Collection (config c)"

definition CollectionExists :: "QdrantClient \<Rightarrow> world \<Rightarrow> (error + bool) \<times> world" where
  "CollectionExists c w =
     (let url = collection_url c in
      case url_error w url of
        Some e \<Rightarrow> (Inl (Wrapf ''failed to create request'' e), w)
      | None \<Rightarrow>
          (case http_Do (GetCollection url (APIKey (config c))) w of
             (TransportError d, w') \<Rightarrow>
               (Inl (Wrapf ''failed to check collection existence'' (External d)), w')
           | (Response status b, w') \<Rightarrow>
               if status = 200 then (Inr True, w')
               else if status = 404 then (Inr False, w')
               else
                 (Inl (StatusError ''unexpected status checking collection'' status
                         (body_text b)), w')))"

definition CreateCollection :: "QdrantClient \<Rightarrow> world \<Rightarrow> (error + unit) \<times> world" where
  "CreateCollection c w =
     (let vectorSize = (if VectorSize (config c) \<le> 0 then 1024 else VectorSize (config c)) in
      case CollectionExists c w of
        (Inl e, w1) \<Rightarrow> (Inl e, w1)
      | (Inr True, w1) \<Rightarrow> (Inr (), w1)
      | (Inr False, w1) \<Rightarrow>
          (let url = collection_url c;
               req = PutCollection url (APIKey (config c)) vectorSize
           in case marshal_error w1 (CreateCollectionRequest vectorSize) of
                Some e \<Rightarrow>
                  (Inl (Wrapf ''failed to marshal create collection request'' e), w1)
              | None \<Rightarrow>
           (case url_error w1 url of
                Some e \<Rightarrow> (Inl (Wrapf ''failed to create request'' e), w1)
              | None \<Rightarrow>
           (case http_Do req w1 of
              (TransportError d, w2) \<Rightarrow>
                (Inl (Wrapf ''failed to create collection'' (External d)), w2)
            | (Response status b, w2) \<Rightarrow>
                if status \<noteq> 200 then
                  (Inl (StatusError ''failed to create collection'' status (body_text b)), w2)
                else (Inr (), w2)))))"

text \<open>
  The methods below are called through the pointer the message store holds, which is
  nil in a store that is not enabled: reading a field of the nil client panics.
\<close>

definition nil_dereference :: string where
  "nil_dereference = ''invalid memory address or nil pointer dereference''"

definition UpsertPoints ::
  "QdrantClient option \<Rightarrow> Point list \<Rightarrow> world \<Rightarrow> (error + unit) go \<times> world" where
  "UpsertPoints cp points w =
     (if length points = 0 then (Return (Inr ()), w)
      else
        case marshal_error w (UpsertRequest points) of
          Some e \<Rightarrow> (Return (Inl (Wrapf ''failed to marshal upsert request'' e)), w)
        | None \<Rightarrow>
        (case cp of
           None \<Rightarrow> (Panic nil_dereference, w)
         | Some c \<Rightarrow>
             (let url = collection_url c @ ''/points'' in
              case url_error w url of
                Some e \<Rightarrow> (Return (Inl (Wrapf ''failed to create request'' e)), w)
              | None \<Rightarrow>
                  (case http_Do (PutPoints url (APIKey (config c)) points) w of
                     (TransportError d, w') \<Rightarrow>
                       (Return (Inl (Wrapf ''failed to upsert points'' (External d))), w')
                   | (Response status b, w') \<Rightarrow>
                       if status \<noteq> 200 then
                         (Return (Inl (StatusError ''failed to upsert points'' status
                                         (body_text b))), w')
                       else (Return (Inr ()), w')))))"

definition Search ::
  "QdrantClient option \<Rightarrow> float32 list \<Rightarrow> string \<Rightarrow> int \<Rightarrow> world
     \<Rightarrow> (error + ScoredPoint list) go \<times> world" where
  "Search cp vector sessionKey limit w =
     (let filter_key = (if sessionKey \<noteq> [] then Some sessionKey else None) in
      case marshal_error w (SearchRequest vector limit filter_key) of
        Some e \<Rightarrow> (Return (Inl (Wrapf ''failed to marshal search request'' e)), w)
      | None \<Rightarrow>
      (case cp of
         None \<Rightarrow> (Panic nil_dereference, w)
       | Some c \<Rightarrow>
           (let url = collection_url c @ ''/points/search'' in
            case url_error w url of
              Some e \<Rightarrow> (Return (Inl (Wrapf ''failed to create request'' e)), w)
            | None \<Rightarrow>
                (case http_Do (PostSearch url (APIKey (config c)) vector limit filter_key) w of
                   (TransportError d, w') \<Rightarrow>
                     (Return (Inl (Wrapf ''failed to search'' (External d))), w')
                 | (Response status b, w') \<Rightarrow>
                     if status \<noteq> 200 then
                       (Return (Inl (StatusError ''failed to search'' status (body_text b))), w')
                     else
                       (case search_result b of
                          None \<Rightarrow>
                            (Return (Inl (Wrapf ''failed to decode search response''
                                            (External ''json''))), w')
                        | Some r \<Rightarrow> (Return (Inr r), w'))))))"

definition DeleteBySessionKey ::
  "QdrantClient option \<Rightarrow> string \<Rightarrow> world \<Rightarrow> (error + unit) go \<times> world" where
  "DeleteBySessionKey cp sessionKey w =
     (case marshal_error w (DeleteRequest sessionKey) of
        Some e \<Rightarrow> (Return (Inl (Wrapf ''failed to marshal delete request'' e)), w)
      | None \<Rightarrow>
      (case cp of
         None \<Rightarrow> (Panic nil_dereference, w)
       | Some c \<Rightarrow>
           (let url = collection_url c @ ''/points/delete'' in
            case url_error w url of
              Some e \<Rightarrow> (Return (Inl (Wrapf ''failed to create request'' e)), w)
            | None \<Rightarrow>
                (case http_Do (PostDelete url (APIKey (config c)) sessionKey) w of
                   (TransportError d, w') \<Rightarrow>
                     (Return (Inl (Wrapf ''failed to delete points'' (External d))), w')
                 | (Response status b, w') \<Rightarrow>
                     if status \<noteq> 200 then
                       (Return (Inl (StatusError ''failed to delete points'' status
                                       (body_text b))), w')
                     else (Return (Inr ()), w')))))"

section \<open>Package storage: payloads\<close>

record MessagePayload =
  SessionKey :: string
  mp_Role :: string
  mp_Content :: string
  Timestamp :: time
  MessageIndex :: int

text \<open>
  \<open>structToMap\<close> marshals the payload and unmarshals the text into a
  \<open>map[string]any\<close>: the map has the five keys of the struct's JSON tags, the strings
  as a decoder reads them back, the time as the string \<open>Time.MarshalJSON\<close> writes, and
  the index as the \<open>float64\<close> of its literal. It fails when the time cannot be written.
\<close>

definition structToMap :: "stdlib \<Rightarrow> MessagePayload \<Rightarrow> error + (string \<rightharpoonup> any)" where
  "structToMap L payload =
     (case time_MarshalJSON L (Timestamp payload) of
        None \<Rightarrow> Inl (External ''json: error calling MarshalJSON for type time.Time'')
      | Some ts \<Rightarrow>
          Inr [''session_key'' \<mapsto> AString (json_text (SessionKey payload)),
               ''role'' \<mapsto> AString (json_text (mp_Role payload)),
               ''content'' \<mapsto> AString (json_text (mp_Content payload)),
               ''timestamp'' \<mapsto> AString (json_text ts),
               ''message_index'' \<mapsto> AFloat64 (float64_of_literal L (MessageIndex payload))])"

text \<open>
  The decoder's treatment of one member of the object, by the type of the struct field
  it is stored into: a missing member and \<open>null\<close> leave the field at its zero value, a
  value of the wrong kind is an error. Members are looked up by the field's JSON tag
  (Go's decoder also accepts a key that differs from the tag in letter case only; the maps
  made by \<open>structToMap\<close> have the tags themselves as keys).
\<close>

definition unmarshal_error :: error where
  "unmarshal_error = External ''json: cannot unmarshal''"

definition string_field :: "any option \<Rightarrow> error + string" where
  "string_field v =
     (case v of
        None \<Rightarrow> Inr []
      | Some ANil \<Rightarrow> Inr []
      | Some (AString s) \<Rightarrow> Inr (json_text s)
      | Some _ \<Rightarrow> Inl unmarshal_error)"

definition time_field :: "stdlib \<Rightarrow> any option \<Rightarrow> error + time" where
  "time_field L v =
     (case v of
        None \<Rightarrow> Inr 0
      | Some ANil \<Rightarrow> Inr 0
      | Some (AString s) \<Rightarrow>
          (case time_UnmarshalJSON L (json_text s) of
             None \<Rightarrow> Inl unmarshal_error
           | Some t \<Rightarrow> Inr t)
      | Some _ \<Rightarrow> Inl unmarshal_error)"

definition int_field :: "stdlib \<Rightarrow> any option \<Rightarrow> error + int" where
  "int_field L v =
     (case v of
        None \<Rightarrow> Inr 0
      | Some ANil \<Rightarrow> Inr 0
      | Some (AInt i) \<Rightarrow> Inr i
      | Some (AFloat64 f) \<Rightarrow>
          (case int_of_float64_literal L f of
             None \<Rightarrow> Inl unmarshal_error
           | Some i \<Rightarrow> Inr i)
      | Some _ \<Rightarrow> Inl unmarshal_error)"

text \<open>
  \<open>payloadToMessagePayload\<close> marshals the map and unmarshals the text into a
  \<open>MessagePayload\<close>; any decoding error makes it return that error.
\<close>

definition payloadToMessagePayload ::
  "stdlib \<Rightarrow> (string \<rightharpoonup> any) \<Rightarrow> error + MessagePayload" where
  "payloadToMessagePayload L payload =
     (case string_field (payload ''session_key'') of
        Inl e \<Rightarrow> Inl e
      | Inr sk \<Rightarrow>
     (case string_field (payload ''role'') of
        Inl e \<Rightarrow> Inl e
      | Inr r \<Rightarrow>
     (case string_field (payload ''content'') of
        Inl e \<Rightarrow> Inl e
      | Inr c \<Rightarrow>
     (case time_field L (payload ''timestamp'') of
        Inl e \<Rightarrow> Inl e
      | Inr t \<Rightarrow>
     (case int_field L (payload ''message_index'') of
        Inl e \<Rightarrow> Inl e
      | Inr i \<Rightarrow>
          Inr \<lparr>SessionKey = sk, mp_Role = r, mp_Content = c,
               Timestamp = t, MessageIndex = i\<rparr>)))))"

definition payloadToMessage :: "stdlib \<Rightarrow> (string \<rightharpoonup> any) \<Rightarrow> error + Message" where
  "payloadToMessage L payload =
     (case payloadToMessagePayload L payload of
        Inl e \<Rightarrow> Inl e
      | Inr msgPayload \<Rightarrow>
          Inr \<lparr>Role = mp_Role msgPayload, Content = mp_Content msgPayload,
               ToolCalls = [], ToolCallID = []\<rparr>)"

section \<open>Package storage: the message store\<close>

record MessageStore =
  qdrantClient :: "QdrantClient option"
  embeddingClient :: "EmbeddingClient option"
  ms_config :: QdrantConfig
  enabled :: bool
  pointCounter :: int64

record StoredMessage =
  sm_SessionKey :: string
  sm_Message :: Message
  sm_Timestamp :: time
  sm_Index :: int

definition NewMessageStore :: "StorageConfig \<Rightarrow> world \<Rightarrow> (error + MessageStore) \<times> world" where
  "NewMessageStore cfg w =
     (let store = \<lparr>qdrantClient = None, embeddingClient = None, ms_config = Qdrant cfg,
                    enabled = Enabled (Qdrant cfg), pointCounter = 0\<rparr>
      in if \<not> enabled store then (Inr store, w)
         else
           let qc = NewQdrantClient (Qdrant cfg);
               embedCfg = (if emb_APIKey (Embedding cfg) = []
                           then (Embedding cfg)\<lparr>emb_APIBase := ''https://api.mistral.ai/v1'',
                                                  emb_Model := ''mistral-embed''\<rparr>
                           else Embedding cfg);
               ec = Mistral (NewMistralEmbeddingClient (emb_APIKey embedCfg)
                               (emb_APIBase embedCfg) (emb_Model embedCfg));
               store' = store\<lparr>qdrantClient := Some qc, embeddingClient := Some ec\<rparr>
           in case CreateCollection qc w of
                (Inl e, w') \<Rightarrow> (Inl (Wrapf ''failed to create Qdrant collection'' e), w')
              | (Inr u, w') \<Rightarrow> (Inr store', w'))"

definition NewMessageStoreWithClients ::
  "QdrantConfig \<Rightarrow> EmbeddingClient option \<Rightarrow> world \<Rightarrow> (error + MessageStore) \<times> world" where
  "NewMessageStoreWithClients cfg ec w =
     (let store = \<lparr>qdrantClient = None, embeddingClient = ec, ms_config = cfg,
                    enabled = Enabled cfg, pointCounter = 0\<rparr>
      in if \<not> enabled store then (Inr store, w)
         else
           let qc = NewQdrantClient cfg;
               store' = store\<lparr>qdrantClient := Some qc\<rparr>
           in case CreateCollection qc w of
                (Inl e, w') \<Rightarrow> (Inl (Wrapf ''failed to create Qdrant collection'' e), w')
              | (Inr u, w') \<Rightarrow> (Inr store', w'))"

definition IsEnabled :: "MessageStore \<Rightarrow> bool" where
  "IsEnabled s = enabled s"

text \<open>
  The operations of the store return their result together with the store, whose
  counter they may have advanced.
\<close>

definition StoreMessage ::
  "stdlib \<Rightarrow> string \<Rightarrow> Message \<Rightarrow> int \<Rightarrow> MessageStore \<Rightarrow> world
     \<Rightarrow> ((error + unit) go \<times> MessageStore) \<times> world" where
  "StoreMessage L sessionKey msg index s w =
     (if \<not> enabled s then ((Return (Inr ()), s), w)
      else
        case embeddingClient s of
          None \<Rightarrow> ((Panic nil_dereference, s), w)
        | Some ec \<Rightarrow>
            (case GenerateEmbedding ec (Content msg) w of
               (Inl e, w1) \<Rightarrow>
                 ((Return (Inl (Wrapf ''failed to generate embedding'' e)), s), w1)
             | (Inr vector, w1) \<Rightarrow>
                 (case time_Now w1 of
                    (now, w2) \<Rightarrow>
                      (let payload = \<lparr>SessionKey = sessionKey, mp_Role = Role msg,
                                      mp_Content = Content msg, Timestamp = now,
                                      MessageIndex = index\<rparr>
                       in case structToMap L payload of
                            Inl e \<Rightarrow>
                              ((Return (Inl (Wrapf ''failed to convert payload to map'' e)), s),
                               w2)
                          | Inr payloadMap \<Rightarrow>
                              (let s' = s\<lparr>pointCounter := pointCounter s + 1\<rparr>;
                                   point = \<lparr>pt_ID = pointCounter s', pt_Vector = vector,
                                            pt_Payload = payloadMap\<rparr>
                               in case UpsertPoints (qdrantClient s') [point] w2 of
                                    (Panic r, w3) \<Rightarrow> ((Panic r, s'), w3)
                                  | (Return (Inl e), w3) \<Rightarrow>
                                      ((Return (Inl (Wrapf ''failed to upsert point to Qdrant''
                                                       e)), s'), w3)
                                  | (Return (Inr u), w3) \<Rightarrow> ((Return (Inr ()), s'), w3))))))"

text \<open>
  The loop of \<open>StoreMessages\<close> that creates the points: \<open>i\<close> is the index of the
  message at the head of the list, \<open>ctr\<close> the counter, \<open>points\<close> the points made so
  far. Reading \<open>vectors[i]\<close> beyond the end of \<open>vectors\<close> panics.
\<close>

fun create_points ::
  "stdlib \<Rightarrow> float32 list list \<Rightarrow> StoredMessage list \<Rightarrow> nat \<Rightarrow> int64 \<Rightarrow> Point list
     \<Rightarrow> (error + Point list) go \<times> int64" where
  "create_points L vectors [] i ctr points = (Return (Inr points), ctr)"
| "create_points L vectors (msg # rest) i ctr points =
     (let ctr' = ctr + 1;
          payload = \<lparr>SessionKey = sm_SessionKey msg, mp_Role = Role (sm_Message msg),
                      mp_Content = Content (sm_Message msg), Timestamp = sm_Timestamp msg,
                      MessageIndex = sm_Index msg\<rparr>
      in case structToMap L payload of
           Inl e \<Rightarrow> (Return (Inl (Wrapf ''failed to convert payload to map'' e)), ctr')
         | Inr payloadMap \<Rightarrow>
             if i < length vectors then
               create_points L vectors rest (Suc i) ctr'
                 (points @ [\<lparr>pt_ID = ctr', pt_Vector = vectors ! i, pt_Payload = payloadMap\<rparr>])
             else (Panic ''index out of range'', ctr'))"

definition StoreMessages ::
  "stdlib \<Rightarrow> StoredMessage list \<Rightarrow> MessageStore \<Rightarrow> world
     \<Rightarrow> ((error + unit) go \<times> MessageStore) \<times> world" where
  "StoreMessages L messages s w =
     (if \<not> enabled s then ((Return (Inr ()), s), w)
      else
        let texts = map (\<lambda>msg. Content (sm_Message msg)) messages in
        case embeddingClient s of
          None \<Rightarrow> ((Panic nil_dereference, s), w)
        | Some ec \<Rightarrow>
            (case GenerateEmbeddingsBatch ec texts w of
               (Inl e, w1) \<Rightarrow>
                 ((Return (Inl (Wrapf ''failed to generate embeddings'' e)), s), w1)
             | (Inr vectors, w1) \<Rightarrow>
                 (case create_points L vectors messages 0 (pointCounter s) [] of
                    (Panic r, ctr) \<Rightarrow> ((Panic r, s\<lparr>pointCounter := ctr\<rparr>), w1)
                  | (Return (Inl e), ctr) \<Rightarrow>
                      ((Return (Inl e), s\<lparr>pointCounter := ctr\<rparr>), w1)
                  | (Return (Inr points), ctr) \<Rightarrow>
                      (let s' = s\<lparr>pointCounter := ctr\<rparr> in
                       case UpsertPoints (qdrantClient s') points w1 of
                         (Panic r, w2) \<Rightarrow> ((Panic r, s'), w2)
                       | (Return (Inl e), w2) \<Rightarrow>
                           ((Return (Inl (Wrapf ''failed to upsert points to Qdrant'' e)), s'),
                            w2)
                       | (Return (Inr u), w2) \<Rightarrow> ((Return (Inr ()), s'), w2)))))"

text \<open>The loops that convert search results, skipping a result that cannot be converted.\<close>

fun results_to_messages :: "stdlib \<Rightarrow> ScoredPoint list \<Rightarrow> Message list" where
  "results_to_messages L [] = []"
| "results_to_messages L (r # rs) =
     (case payloadToMessage L (sp_Payload r) of
        Inl e \<Rightarrow> results_to_messages L rs
      | Inr msg \<Rightarrow> msg # results_to_messages L rs)"

fun results_to_payloads :: "stdlib \<Rightarrow> ScoredPoint list \<Rightarrow> MessagePayload list" where
  "results_to_payloads L [] = []"
| "results_to_payloads L (r # rs) =
     (case payloadToMessagePayload L (sp_Payload r) of
        Inl e \<Rightarrow> results_to_payloads L rs
      | Inr payload \<Rightarrow> payload # results_to_payloads L rs)"

definition MS_SearchSimilarMessages ::
  "stdlib \<Rightarrow> string \<Rightarrow> string \<Rightarrow> int \<Rightarrow> MessageStore \<Rightarrow> world
     \<Rightarrow> (error + Message list) go \<times> world" where
  "MS_SearchSimilarMessages L sessionKey query limit s w =
     (if \<not> enabled s then (Return (Inr []), w)
      else
        case embeddingClient s of
          None \<Rightarrow> (Panic nil_dereference, w)
        | Some ec \<Rightarrow>
            (case GenerateEmbedding ec query w of
               (Inl e, w1) \<Rightarrow>
                 (Return (Inl (Wrapf ''failed to generate query embedding'' e)), w1)
             | (Inr vector, w1) \<Rightarrow>
                 (case Search (qdrantClient s) vector sessionKey limit w1 of
                    (Panic r, w2) \<Rightarrow> (Panic r, w2)
                  | (Return (Inl e), w2) \<Rightarrow>
                      (Return (Inl (Wrapf ''failed to search Qdrant'' e)), w2)
                  | (Return (Inr results), w2) \<Rightarrow>
                      (Return (Inr (results_to_messages L results)), w2))))"

definition SearchSimilarMessagesWithPayload ::
  "stdlib \<Rightarrow> string \<Rightarrow> string \<Rightarrow> int \<Rightarrow> MessageStore \<Rightarrow> world
     \<Rightarrow> (error + MessagePayload list) go \<times> world" where
  "SearchSimilarMessagesWithPayload L sessionKey query limit s w =
     (if \<not> enabled s then (Return (Inr []), w)
      else
        case embeddingClient s of
          None \<Rightarrow> (Panic nil_dereference, w)
        | Some ec \<Rightarrow>
            (case GenerateEmbedding ec query w of
               (Inl e, w1) \<Rightarrow>
                 (Return (Inl (Wrapf ''failed to generate query embedding'' e)), w1)
             | (Inr vector, w1) \<Rightarrow>
                 (case Search (qdrantClient s) vector sessionKey limit w1 of
                    (Panic r, w2) \<Rightarrow> (Panic r, w2)
                  | (Return (Inl e), w2) \<Rightarrow>
                      (Return (Inl (Wrapf ''failed to search Qdrant'' e)), w2)
                  | (Return (Inr results), w2) \<Rightarrow>
                      (Return (Inr (results_to_payloads L results)), w2))))"

definition DeleteSessionMessages ::
  "string \<Rightarrow> MessageStore \<Rightarrow> world \<Rightarrow> (error + unit) go \<times> world" where
  "DeleteSessionMessages sessionKey s w =
     (if \<not> enabled s then (Return (Inr ()), w)
      else
        case DeleteBySessionKey (qdrantClient s) sessionKey w of
          (Panic r, w1) \<Rightarrow> (Panic r, w1)
        | (Return (Inl e), w1) \<Rightarrow>
            (Return (Inl (Wrapf ''failed to delete session messages'' e)), w1)
        | (Return (Inr u), w1) \<Rightarrow> (Return (Inr ()), w1))"

section \<open>Package session: the session manager\<close>

text \<open>
  The manager's map of sessions, its storage directory, and the pointer to the message
  store, which is nil when none was created.
\<close>

record SessionManager =
  sessions :: "string \<rightharpoonup> Session"
  storage :: string
  messageStore :: "MessageStore option"

definition GetOrCreate ::
  "string \<Rightarrow> SessionManager \<Rightarrow> world \<Rightarrow> (Session \<times> SessionManager) \<times> world" where
  "GetOrCreate k sm w =
     (case sessions sm k of
        Some session \<Rightarrow> ((session, sm), w)
      | None \<Rightarrow>
          (case time_Now w of
             (c, w1) \<Rightarrow>
               (case time_Now w1 of
                  (u, w2) \<Rightarrow>
                    (let session = \<lparr>Key = k, Messages = [], Summary = [],
                                    Created = c, Updated = u\<rparr>
                     in ((session, sm\<lparr>sessions := (sessions sm)(k \<mapsto> session)\<rparr>), w2)))))"

definition AddFullMessage ::
  "stdlib \<Rightarrow> string \<Rightarrow> Message \<Rightarrow> SessionManager \<Rightarrow> world
     \<Rightarrow> (unit go \<times> SessionManager) \<times> world" where
  "AddFullMessage L sessionKey msg sm w =
     (case (case sessions sm sessionKey of
              Some session \<Rightarrow> (session, w)
            | None \<Rightarrow>
                (case time_Now w of
                   (c, w') \<Rightarrow>
                     (\<lparr>Key = sessionKey, Messages = [], Summary = [],
                       Created = c, Updated = 0\<rparr>, w'))) of
        (session, w1) \<Rightarrow>
          (case time_Now w1 of
             (u, w2) \<Rightarrow>
               (let session' = session\<lparr>Messages := Messages session @ [msg], Updated := u\<rparr>;
                    sm1 = sm\<lparr>sessions := (sessions sm)(sessionKey \<mapsto> session')\<rparr>
                in case messageStore sm of
                     None \<Rightarrow> ((Return (), sm1), w2)
                   | Some store \<Rightarrow>
                       if \<not> IsEnabled store then ((Return (), sm1), w2)
                       else if sessionKey = ''heartbeat'' then ((Return (), sm1), w2)
                       else if Role msg = ''tool'' \<or> Role msg = ''system'' then
                         ((Return (), sm1), w2)
                       else if Content msg = [] then ((Return (), sm1), w2)
                       else
                         (let index = int (length (Messages session')) - 1 in
                          case StoreMessage L sessionKey msg index store w2 of
                            ((Panic r, store'), w3) \<Rightarrow>
                              ((Panic r, sm1\<lparr>messageStore := Some store'\<rparr>), w3)
                          | ((Return (Inl e), store'), w3) \<Rightarrow>
                              ((Return (), sm1\<lparr>messageStore := Some store'\<rparr>),
                               w3\<lparr>stderr := stderr w3 @
                                    [''[Qdrant] Failed to store message: '' @ error_text e
                                     @ [CHR 0x0A]]\<rparr>)
                          | ((Return (Inr x), store'), w3) \<Rightarrow>
                              ((Return (), sm1\<lparr>messageStore := Some store'\<rparr>), w3)))))"

definition AddMessage ::
  "stdlib \<Rightarrow> string \<Rightarrow> string \<Rightarrow> string \<Rightarrow> SessionManager \<Rightarrow> world
     \<Rightarrow> (unit go \<times> SessionManager) \<times> world" where
  "AddMessage L sessionKey r c sm w =
     AddFullMessage L sessionKey \<lparr>Role = r, Content = c, ToolCalls = [], ToolCallID = []\<rparr> sm w"

definition GetHistory :: "string \<Rightarrow> SessionManager \<Rightarrow> Message list" where
  "GetHistory k sm =
     (case sessions sm k of
        None \<Rightarrow> []
      | Some session \<Rightarrow> Messages session)"

definition GetSummary :: "string \<Rightarrow> SessionManager \<Rightarrow> string" where
  "GetSummary k sm =
     (case sessions sm k of
        None \<Rightarrow> []
      | Some session \<Rightarrow> Summary session)"

definition SetSummary ::
  "string \<Rightarrow> string \<Rightarrow> SessionManager \<Rightarrow> world \<Rightarrow> SessionManager \<times> world" where
  "SetSummary k summary sm w =
     (case sessions sm k of
        None \<Rightarrow> (sm, w)
      | Some session \<Rightarrow>
          (case time_Now w of
             (u, w1) \<Rightarrow>
               (sm\<lparr>sessions := (sessions sm)(k \<mapsto> session\<lparr>Summary := summary, Updated := u\<rparr>)\<rparr>,
                w1)))"

definition SetHistory ::
  "string \<Rightarrow> Message list \<Rightarrow> SessionManager \<Rightarrow> world \<Rightarrow> SessionManager \<times> world" where
  "SetHistory k history sm w =
     (case sessions sm k of
        None \<Rightarrow> (sm, w)
      | Some session \<Rightarrow>
          (case time_Now w of
             (u, w1) \<Rightarrow>
               (sm\<lparr>sessions := (sessions sm)(k \<mapsto> session\<lparr>Messages := history, Updated := u\<rparr>)\<rparr>,
                w1)))"

text \<open>
  \<open>TruncateHistory\<close>: the slice expression \<open>Messages[len(Messages)-keepLast:]\<close> is
  reached only with \<open>0 < keepLast < len(Messages)\<close>.
\<close>

definition TruncateHistory ::
  "string \<Rightarrow> int \<Rightarrow> SessionManager \<Rightarrow> world \<Rightarrow> SessionManager \<times> world" where
  "TruncateHistory k keepLast sm w =
     (case sessions sm k of
        None \<Rightarrow> (sm, w)
      | Some session \<Rightarrow>
          if keepLast \<le> 0 then
            (case time_Now w of
               (u, w1) \<Rightarrow>
                 (sm\<lparr>sessions := (sessions sm)(k \<mapsto> session\<lparr>Messages := [], Updated := u\<rparr>)\<rparr>,
                  w1))
          else if int (length (Messages session)) \<le> keepLast then (sm, w)
          else
            (case time_Now w of
               (u, w1) \<Rightarrow>
                 (sm\<lparr>sessions := (sessions sm)(k \<mapsto>
                       session\<lparr>Messages :=
                                 drop (nat (int (length (Messages session)) - keepLast))
                                   (Messages session),
                               Updated := u\<rparr>)\<rparr>,
                  w1)))"

definition sanitizeFilename :: "string \<Rightarrow> string" where
  "sanitizeFilename k = ReplaceAll_char k CHR '':'' CHR ''_''"

text \<open>
  The part of \<open>Save\<close> after the snapshot: the snapshot is marshalled, written to a
  temporary file in the storage directory, and the file renamed to the session's path.
  The deferred clean-up removes the temporary file on every return after its creation
  but the last one, ignoring a failure of the removal.
\<close>

definition cleanup :: "string \<Rightarrow> world \<Rightarrow> world" where
  "cleanup tmpPath w =
     (case io_fail w (SysRemove tmpPath) of
        None \<Rightarrow> w\<lparr>files := (files w)(tmpPath := None)\<rparr>
      | Some e \<Rightarrow> w)"

definition write_snapshot ::
  "stdlib \<Rightarrow> string \<Rightarrow> string \<Rightarrow> Session \<Rightarrow> world \<Rightarrow> (error + unit) \<times> world" where
  "write_snapshot L dir filename snapshot w =
     (case MarshalIndent L snapshot of
        Inl e \<Rightarrow> (Inl e, w)
      | Inr data \<Rightarrow>
          (let sessionPath = Join dir (filename @ ''.json'') in
           case io_fail w (SysCreateTemp dir ''session-*.tmp'') of
             Some e \<Rightarrow> (Inl e, w)
           | None \<Rightarrow>
               (let tmpPath = temp_name w dir ''session-*.tmp'';
                    w1 = w\<lparr>files := (files w)(tmpPath \<mapsto> [])\<rparr>
                in case io_fail w1 (SysWrite tmpPath) of
                     Some e \<Rightarrow> (Inl e, cleanup tmpPath w1)
                   | None \<Rightarrow>
                       (let w2 = w1\<lparr>files := (files w1)(tmpPath \<mapsto> data)\<rparr>
                        in case io_fail w2 (SysChmod tmpPath) of
                             Some e \<Rightarrow> (Inl e, cleanup tmpPath w2)
                           | None \<Rightarrow>
                        (case io_fail w2 (SysSync tmpPath) of
                             Some e \<Rightarrow> (Inl e, cleanup tmpPath w2)
                           | None \<Rightarrow>
                        (case io_fail w2 (SysClose tmpPath) of
                             Some e \<Rightarrow> (Inl e, cleanup tmpPath w2)
                           | None \<Rightarrow>
                        (case io_fail w2 (SysRename tmpPath sessionPath) of
                             Some e \<Rightarrow> (Inl e, cleanup tmpPath w2)
                           | None \<Rightarrow>
                               (Inr (),
                                w2\<lparr>files := (files w2)(tmpPath := None,
                                                        sessionPath \<mapsto> data)\<rparr>))))))))"

text \<open>
  \<open>Save\<close>: the checks of the storage path and of the file name, the snapshot of the
  session, and the writing of the snapshot.
\<close>

definition Save :: "stdlib \<Rightarrow> string \<Rightarrow> SessionManager \<Rightarrow> world \<Rightarrow> (error + unit) \<times> world" where
  "Save L k sm w =
     (if storage sm = [] then (Inr (), w)
      else
        let filename = sanitizeFilename k in
        if filename = ''.'' \<or> \<not> IsLocal filename \<or> ContainsAny filename [CHR ''/'', CHR 0x5C]
        then (Inl ErrInvalid, w)
        else
          case sessions sm k of
            None \<Rightarrow> (Inr (), w)
          | Some stored \<Rightarrow>
              (let snapshot = \<lparr>Key = Key stored,
                               Messages = (if length (Messages stored) > 0
                                           then Messages stored else []),
                               Summary = Summary stored,
                               Created = Created stored, Updated = Updated stored\<rparr>
               in write_snapshot L (storage sm) filename snapshot w))"

definition SearchSimilarMessages ::
  "stdlib \<Rightarrow> string \<Rightarrow> string \<Rightarrow> int \<Rightarrow> SessionManager \<Rightarrow> world
     \<Rightarrow> (error + Message list) go \<times> world" where
  "SearchSimilarMessages L sessionKey query limit sm w =
     (case messageStore sm of
        None \<Rightarrow> (Return (Inr []), w)
      | Some store \<Rightarrow>
          if \<not> IsEnabled store then (Return (Inr []), w)
          else MS_SearchSimilarMessages L sessionKey query limit store w)"

section \<open>Package tools: the memory search tool\<close>

record ToolResult =
  ForLLM :: string
  IsError :: bool

record QdrantSearchTool =
  tool_messageStore :: "MessageStore option"
  tool_sessionKey :: string

text \<open>
  \<open>strconv.Atoi\<close>: an optional sign and one or more decimal digits, within the range
  of a 64-bit \<open>int\<close>; anything else is an error.
\<close>

definition is_digit :: "char \<Rightarrow> bool" where
  "is_digit c \<longleftrightarrow> (48::nat) \<le> of_char c \<and> of_char c \<le> (57::nat)"

definition decimal :: "string \<Rightarrow> int" where
  "decimal ds = foldl (\<lambda>v c. 10 * v + (int (of_char c) - 48)) 0 ds"

definition Atoi :: "string \<Rightarrow> int option" where
  "Atoi s =
     (let neg = (s \<noteq> [] \<and> hd s = CHR ''-'');
          ds = (if s \<noteq> [] \<and> (hd s = CHR ''-'' \<or> hd s = CHR ''+'') then tl s else s)
      in if ds = [] \<or> \<not> list_all is_digit ds then None
         else
           let v = (if neg then - decimal ds else decimal ds)
           in if v < - (2 ^ 63) \<or> 2 ^ 63 - 1 < v then None else Some v)"

text \<open>
  The conversion \<open>int(v)\<close> of a \<open>float64\<close>. A \<open>float64\<close> is its IEEE 754 bit pattern: the
  sign in bit 63, the biased exponent in bits 52 to 62 and the fraction in bits 0 to
  51. The conversion discards the fraction of the number (it truncates towards zero);
  \<open>float64_truncated\<close> is the integer part when the number is finite and a 64-bit \<open>int\<close>
  holds its integer part, and the result is the implementation's otherwise.
\<close>

definition float64_negative :: "float64 \<Rightarrow> bool" where
  "float64_negative f \<longleftrightarrow> bit f 63"

definition float64_exponent :: "float64 \<Rightarrow> nat" where
  "float64_exponent f = unat (take_bit 11 (drop_bit 52 f))"

definition float64_fraction :: "float64 \<Rightarrow> nat" where
  "float64_fraction f = unat (take_bit 52 f)"

definition float64_truncated :: "float64 \<Rightarrow> int option" where
  "float64_truncated f =
     (let e = float64_exponent f;
          m = int (float64_fraction f)
      in if e = 2047 then None
         else
           let magnitude =
                 (if e = 0 then 0
                  else if 1075 \<le> e then (2 ^ 52 + m) * 2 ^ (e - 1075)
                  else (2 ^ 52 + m) div 2 ^ (1075 - e));
               v = (if float64_negative f then - magnitude else magnitude)
           in if v < - (2 ^ 63) \<or> 2 ^ 63 - 1 < v then None else Some v)"

definition int_conversion :: "stdlib \<Rightarrow> float64 \<Rightarrow> int" where
  "int_conversion L v =
     (case float64_truncated v of
        Some i \<Rightarrow> i
      | None \<Rightarrow> int_of_float64 L v)"

text \<open>
  The limit \<open>Execute\<close> takes from its arguments. The requested limit is 5 unless
  the argument \<open>limit\<close> is an \<open>int\<close>, a \<open>float64\<close> or a string that \<open>strconv.Atoi\<close>
  accepts; the limit used is the requested one, capped at 20 and then raised to 1.
\<close>

definition Execute_requested :: "stdlib \<Rightarrow> (string \<rightharpoonup> any) \<Rightarrow> int" where
  "Execute_requested L args =
     (let limit = 5
      in case args ''limit'' of
           Some (AInt v) \<Rightarrow> v
         | Some (AFloat64 v) \<Rightarrow> int_conversion L v
         | Some (AString v) \<Rightarrow>
             (case Atoi v of
                Some parsed \<Rightarrow> parsed
              | None \<Rightarrow> limit)
         | _ \<Rightarrow> limit)"

definition Execute_limit :: "stdlib \<Rightarrow> (string \<rightharpoonup> any) \<Rightarrow> int" where
  "Execute_limit L args =
     (let limit = Execute_requested L args;
          limit = (if limit > 20 then 20 else limit);
          limit = (if limit < 1 then 1 else limit)
      in limit)"

text \<open>
  The session key \<open>Execute\<close> searches in: the tool's own, unless the argument
  \<open>filters\<close> is a map with a non-empty string under \<open>session_key\<close>.
\<close>

definition Execute_sessionKey :: "QdrantSearchTool \<Rightarrow> (string \<rightharpoonup> any) \<Rightarrow> string" where
  "Execute_sessionKey t args =
     (case args ''filters'' of
        Some (AMap filters) \<Rightarrow>
          (case map_of filters ''session_key'' of
             Some (AString sessionKeyFilter) \<Rightarrow>
               if sessionKeyFilter \<noteq> [] then sessionKeyFilter else tool_sessionKey t
           | _ \<Rightarrow> tool_sessionKey t)
      | _ \<Rightarrow> tool_sessionKey t)"

text \<open>
  \<open>Execute\<close> up to the search: it answers with an error result when the store is
  missing or not enabled, or when \<open>query_text\<close> is not a non-empty string; otherwise
  it calls \<open>SearchSimilarMessagesWithPayload\<close> with the session key, the query and the
  limit above, and answers with an error result when the search fails. The payloads
  found (\<open>Inr\<close>) are what it then filters and formats.
\<close>

definition not_configured :: ToolResult where
  "not_configured =
     \<lparr>ForLLM = ''Qdrant memory search is not configured. ''
                @ ''Enable it in config to search long-term memory.'',
      IsError = True\<rparr>"

definition query_text_required :: ToolResult where
  "query_text_required =
     \<lparr>ForLLM = ''Error: query_text is required and must be a non-empty string'',
      IsError = True\<rparr>"

definition Execute_search ::
  "stdlib \<Rightarrow> QdrantSearchTool \<Rightarrow> (string \<rightharpoonup> any) \<Rightarrow> world
     \<Rightarrow> (ToolResult + MessagePayload list) go \<times> world" where
  "Execute_search L t args w =
     (case tool_messageStore t of
        None \<Rightarrow> (Return (Inl not_configured), w)
      | Some store \<Rightarrow>
          if \<not> IsEnabled store then (Return (Inl not_configured), w)
          else
            case args ''query_text'' of
              Some (AString queryText) \<Rightarrow>
                if queryText = [] then (Return (Inl query_text_required), w)
                else
                  (case SearchSimilarMessagesWithPayload L (Execute_sessionKey t args)
                          queryText (Execute_limit L args) store w of
                     (Panic r, w1) \<Rightarrow> (Panic r, w1)
                   | (Return (Inl e), w1) \<Rightarrow>
                       (Return (Inl \<lparr>ForLLM = ''Error searching memory: '' @ error_text e,
                                     IsError = True\<rparr>), w1)
                   | (Return (Inr messages), w1) \<Rightarrow> (Return (Inr messages), w1))
            | _ \<Rightarrow> (Return (Inl query_text_required), w))"

section \<open>Derived notions used in the statements\<close>

text \<open>A payload converted to a map and back.\<close>

definition payload_round_trip :: "stdlib \<Rightarrow> MessagePayload \<Rightarrow> error + MessagePayload" where
  "payload_round_trip L payload =
     (case structToMap L payload of
        Inl e \<Rightarrow> Inl e
      | Inr m \<Rightarrow> payloadToMessagePayload L m)"

text \<open>
  The identifiers of the points in the upsert requests of a log, in the order they were
  sent, and the texts of the embedding requests.
\<close>

fun upserted_ids :: "request list \<Rightarrow> int64 list" where
  "upserted_ids [] = []"
| "upserted_ids (PutPoints url k points # rs) = map pt_ID points @ upserted_ids rs"
| "upserted_ids (r # rs) = upserted_ids rs"

fun embedded_texts :: "request list \<Rightarrow> string list" where
  "embedded_texts [] = []"
| "embedded_texts (PostEmbeddings url k m texts # rs) = texts @ embedded_texts rs"
| "embedded_texts (r # rs) = embedded_texts rs"

text \<open>
  A run of one store: the operations called on it, one after the other. A run ends
  with the first panic.
\<close>

datatype store_op =
    OpStoreMessage string Message int
  | OpStoreMessages "StoredMessage list"
  | OpSearch string string int
  | OpSearchWithPayload string string int
  | OpDelete string

fun run_op ::
  "stdlib \<Rightarrow> store_op \<Rightarrow> MessageStore \<Rightarrow> world \<Rightarrow> (bool \<times> MessageStore) \<times> world" where
  "run_op L (OpStoreMessage k msg i) s w =
     (case StoreMessage L k msg i s w of
        ((r, s'), w') \<Rightarrow> ((case r of Panic x \<Rightarrow> True | Return y \<Rightarrow> False, s'), w'))"
| "run_op L (OpStoreMessages msgs) s w =
     (case StoreMessages L msgs s w of
        ((r, s'), w') \<Rightarrow> ((case r of Panic x \<Rightarrow> True | Return y \<Rightarrow> False, s'), w'))"
| "run_op L (OpSearch k q n) s w =
     (case MS_SearchSimilarMessages L k q n s w of
        (r, w') \<Rightarrow> ((case r of Panic x \<Rightarrow> True | Return y \<Rightarrow> False, s), w'))"
| "run_op L (OpSearchWithPayload k q n) s w =
     (case SearchSimilarMessagesWithPayload L k q n s w of
        (r, w') \<Rightarrow> ((case r of Panic x \<Rightarrow> True | Return y \<Rightarrow> False, s), w'))"
| "run_op L (OpDelete k) s w =
     (case DeleteSessionMessages k s w of
        (r, w') \<Rightarrow> ((case r of Panic x \<Rightarrow> True | Return y \<Rightarrow> False, s), w'))"

fun run :: "stdlib \<Rightarrow> store_op list \<Rightarrow> MessageStore \<Rightarrow> world \<Rightarrow> MessageStore \<times> world" where
  "run L [] s w = (s, w)"
| "run L (op # ops) s w =
     (case run_op L op s w of
        ((panicked, s'), w') \<Rightarrow> if panicked then (s', w') else run L ops s' w')"

text \<open>The number of identifiers the operations of a run ask for at most.\<close>

fun demand :: "store_op \<Rightarrow> nat" where
  "demand (OpStoreMessage k msg i) = 1"
| "demand (OpStoreMessages msgs) = length msgs"
| "demand other = 0"

text \<open>
  The messages appended to a session one after the other, as a caller does with
  \<open>AddFullMessage\<close>; a panic ends the sequence.
\<close>

fun add_messages ::
  "stdlib \<Rightarrow> string \<Rightarrow> Message list \<Rightarrow> SessionManager \<Rightarrow> world \<Rightarrow> SessionManager \<times> world" where
  "add_messages L k [] sm w = (sm, w)"
| "add_messages L k (msg # msgs) sm w =
     (case AddFullMessage L k msg sm w of
        ((Panic r, sm'), w') \<Rightarrow> (sm', w')
      | ((Return u, sm'), w') \<Rightarrow> add_messages L k msgs sm' w')"

text \<open>
  The identifiers upserted so far, read as signed 64-bit integers, increase strictly in
  the order they were sent, and none exceeds the counter of the store.
\<close>

definition ids_increasing :: "MessageStore \<Rightarrow> world \<Rightarrow> bool" where
  "ids_increasing s w \<longleftrightarrow>
     sorted_wrt (<) (map sint (upserted_ids (sent w))) \<and>
     (\<forall>i \<in> set (upserted_ids (sent w)). sint i \<le> sint (pointCounter s))"

text \<open>
  An embedding client that sends no upsert of its own, and a store whose client, if it
  has one, is such a client.
\<close>

definition embeds_only :: "EmbeddingClient \<Rightarrow> bool" where
  "embeds_only ec \<longleftrightarrow>
     (\<forall>t w. upserted_ids (sent (snd (GenerateEmbedding ec t w))) = upserted_ids (sent w)) \<and>
     (\<forall>ts w. upserted_ids (sent (snd (GenerateEmbeddingsBatch ec ts w)))
              = upserted_ids (sent w))"

definition quiet_embedder :: "MessageStore \<Rightarrow> bool" where
  "quiet_embedder s \<longleftrightarrow>
     (case embeddingClient s of
        None \<Rightarrow> True
      | Some ec \<Rightarrow> embeds_only ec)"

section \<open>Example values\<close>

text \<open>
  A world in which every request is answered with status 200, one embedding and no
  search result, no marshalling, no URL and no file system call fails, and the clock
  shows the number of its readings; and standard library conversions that write a time
  as the decimal numeral of its instant and a number as the 64-bit pattern of the
  integer.
\<close>

definition example_body :: body where
  "example_body =
     \<lparr>body_text = ''{}'', embedding_data = Some [[1, 2, 3]], search_result = Some []\<rparr>"

definition example_world :: world where
  "example_world =
     \<lparr>sent = [], respond = (\<lambda>log req. Response 200 example_body),
      marshal_error = (\<lambda>b. None), url_error = (\<lambda>url. None), ticks = 0, now_at = (\<lambda>n. int n),
      files = Map.empty, io_fail = (\<lambda>c. None),
      temp_name = (\<lambda>dir pattern. dir @ ''/session-1.tmp''), stderr = []\<rparr>"

definition example_lib :: stdlib where
  "example_lib =
     \<lparr>time_MarshalJSON = (\<lambda>t. Some (Sprintf_d t)),
      time_UnmarshalJSON = Atoi,
      float64_of_literal = (\<lambda>i. word_of_int i),
      int_of_float64_literal = (\<lambda>f. Some (sint f)),
      int_of_float64 = (\<lambda>f. sint f),
      MarshalIndent = (\<lambda>s. Inr (Key s))\<rparr>"

definition plain_message :: "string \<Rightarrow> string \<Rightarrow> Message" where
  "plain_message r c = \<lparr>Role = r, Content = c, ToolCalls = [], ToolCallID = []\<rparr>"

definition example_session :: Session where
  "example_session =
     \<lparr>Key = ''telegram:1'',
      Messages = [plain_message ''user'' ''one'', plain_message ''assistant'' ''two'',
                  plain_message ''user'' ''three''],
      Summary = [], Created = 0, Updated = 0\<rparr>"

definition example_manager :: "string \<Rightarrow> SessionManager" where
  "example_manager dir =
     \<lparr>sessions = [''telegram:1'' \<mapsto> example_session], storage = dir, messageStore = None\<rparr>"

text \<open>
  A configuration with the vector store enabled and an embedding credential, the store
  \<open>NewMessageStore\<close> makes of it, and the same with the store disabled.
\<close>

definition example_config :: QdrantConfig where
  "example_config =
     \<lparr>Enabled = True, Host = ''localhost'', Port = 6333, GRPCPort = 6334, APIKey = [],
      Collection = ''messages'', VectorSize = 3, Secure = False\<rparr>"

definition example_embedding :: MistralEmbeddingClient where
  "example_embedding = NewMistralEmbeddingClient ''key'' [] []"

definition example_store :: MessageStore where
  "example_store =
     \<lparr>qdrantClient = Some (NewQdrantClient example_config),
      embeddingClient = Some (Mistral example_embedding),
      ms_config = example_config, enabled = True, pointCounter = 0\<rparr>"

definition disabled_store :: MessageStore where
  "disabled_store =
     \<lparr>qdrantClient = None, embeddingClient = None,
      ms_config = example_config\<lparr>Enabled := False\<rparr>, enabled = False, pointCounter = 0\<rparr>"

definition example_stored :: "string \<Rightarrow> StoredMessage" where
  "example_stored c =
     \<lparr>sm_SessionKey = ''telegram:1'', sm_Message = plain_message ''user'' c,
      sm_Timestamp = 0, sm_Index = 0\<rparr>"

definition example_tool :: QdrantSearchTool where
  "example_tool = \<lparr>tool_messageStore = Some example_store, tool_sessionKey = ''telegram:1''\<rparr>"

text \<open>A payload as the test of the conversion has it, and one whose role is the byte FF.\<close>

definition example_payload :: MessagePayload where
  "example_payload =
     \<lparr>SessionKey = ''test-session'', mp_Role = ''user'', mp_Content = ''Hello, World!'',
      Timestamp = 0, MessageIndex = 0\<rparr>"

definition invalid_payload :: MessagePayload where
  "invalid_payload = example_payload\<lparr>mp_Role := [CHR 0xFF]\<rparr>"

text \<open>
  The conversation of the test \<open>TestAddFullMessage_FiltersIntermediateAssistantMessages\<close>:
  a question, an assistant message with a tool call, the tool's result, and the final
  answer; and a manager with the enabled store and no session yet.
\<close>

definition calculator_call :: ToolCall where
  "calculator_call =
     \<lparr>tc_ID = ''call_1'', tc_Type = ''function'', tc_Name = ''calculator'',
      tc_Function =
        Some \<lparr>fc_Name = ''calculator'',
              fc_Arguments = ''{'' @ [CHR 0x22] @ ''expression'' @ [CHR 0x22] @ '': ''
                             @ [CHR 0x22] @ ''2+2'' @ [CHR 0x22] @ ''}''\<rparr>\<rparr>"

definition tool_call_conversation :: "Message list" where
  "tool_call_conversation =
     [\<lparr>Role = ''user'', Content = ''What is 2+2?'', ToolCalls = [], ToolCallID = []\<rparr>,
      \<lparr>Role = ''assistant'', Content = ''Let me calculate...'',
       ToolCalls = [calculator_call], ToolCallID = []\<rparr>,
      \<lparr>Role = ''tool'', Content = ''4'', ToolCalls = [], ToolCallID = ''call_1''\<rparr>,
      \<lparr>Role = ''assistant'', Content = ''The answer is 4'', ToolCalls = [], ToolCallID = []\<rparr>]"

definition indexing_manager :: SessionManager where
  "indexing_manager = \<lparr>sessions = Map.empty, storage = [], messageStore = Some example_store\<rparr>"

text \<open>A run of the example store: two single stores, a search and a batch of one.\<close>

definition example_run :: "store_op list" where
  "example_run =
     [OpStoreMessage ''telegram:1'' (plain_message ''user'' ''one'') 0,
      OpSearch ''telegram:1'' ''one'' 5,
      OpStoreMessages [example_stored ''two''],
      OpStoreMessage ''telegram:1'' (plain_message ''assistant'' ''three'') 2]"

section \<open>The model on examples\<close>

lemma sanitizeFilename_examples:
  "sanitizeFilename ''a:b:c'' = ''a_b_c''"
  "sanitizeFilename ''telegram:123456'' = ''telegram_123456''"
  "sanitizeFilename ''no-colons-here'' = ''no-colons-here''"
  by (simp_all add: sanitizeFilename_def ReplaceAll_char_def)

lemma IsLocal_examples:
  "IsLocal ''telegram_123456''" "IsLocal ''a/../b''" "\<not> IsLocal ''a/../../b''"
  "\<not> IsLocal ''/etc''" "IsLocal ''.''"
  by (simp_all add: IsLocal_def Clean_def clean_step_def)

lemma Clean_examples:
  "Clean ''/a/../../b/./c//d/'' = ''/b/c/d''" "Clean ''a/../..'' = ''..''" "Clean [] = ''.''"
  by (simp_all add: Clean_def clean_step_def)

lemma float64_truncated_examples:
  "float64_truncated 0 = Some 0"
  "float64_truncated 0x3FEFFFFFFFFFFFFF = Some 0"
  "float64_truncated 0x4004000000000000 = Some 2"
  "float64_truncated 0x401C000000000000 = Some 7"
  "float64_truncated 0x4034FFFFFFFFFFFF = Some 20"
  "float64_truncated 0x4035000000000000 = Some 21"
  "float64_truncated 0x4059000000000000 = Some 100"
  "float64_truncated 0xBFF0000000000000 = Some (- 1)"
  "float64_truncated 0xC3E0000000000000 = Some (- (2 ^ 63))"
  "float64_truncated 0x43E0000000000000 = None"
  "float64_truncated 0x7FF0000000000000 = None"
  "float64_truncated 0x7FF8000000000000 = None"
  by (simp_all add: float64_truncated_def float64_exponent_def float64_fraction_def
      float64_negative_def Let_def)

lemma Atoi_examples:
  "Atoi ''100'' = Some 100" "Atoi ''-5'' = Some (- 5)" "Atoi ''+7'' = Some 7"
  "Atoi [] = None" "Atoi ''-'' = None" "Atoi ''1_0'' = None" "Atoi ''12a'' = None"
  "Atoi ''9223372036854775808'' = None"
  by (simp_all add: Atoi_def is_digit_def decimal_def)

lemma json_text_examples:
  "json_text ''hello'' = ''hello''"
  "json_text [CHR 0xE2, CHR 0x82, CHR 0xAC] = [CHR 0xE2, CHR 0x82, CHR 0xAC]"
  "json_text [CHR ''a'', CHR 0xC0, CHR ''b''] = [CHR ''a'', CHR 0xEF, CHR 0xBF, CHR 0xBD, CHR ''b'']"
  by (simp_all add: in_range_def second_lo_def second_hi_def replacement_char_def)

lemma Save_example:
  "fst (Save example_lib ''telegram:1'' (example_manager ''dir'') example_world) = Inr () \<and>
   files (snd (Save example_lib ''telegram:1'' (example_manager ''dir'') example_world))
     = [''dir/telegram_1.json'' \<mapsto> ''telegram:1'']"
  by (auto simp add: Save_def write_snapshot_def Let_def example_manager_def example_world_def
      example_lib_def example_session_def sanitizeFilename_def ReplaceAll_char_def IsLocal_def
      ContainsAny_def Join_def Clean_def clean_step_def fun_eq_iff)

lemma NewMessageStore_example:
  "fst (NewMessageStore \<lparr>Qdrant = example_config,
                         Embedding = \<lparr>emb_APIKey = ''key'', emb_APIBase = [], emb_Model = []\<rparr>\<rparr>
         example_world) = Inr example_store"
  by (simp add: NewMessageStore_def CreateCollection_def CollectionExists_def http_Do_def Let_def
      example_store_def example_config_def example_world_def example_embedding_def)

lemma error_text_example:
  "error_text (Wrapf ''failed to search Qdrant'' (StatusError ''failed to search'' 500 ''down''))
     = ''failed to search Qdrant: failed to search: status=500, body=down''"
  by (simp add: Sprintf_d_def)

section \<open>Truncation of a session's history\<close>

lemma TruncateHistory_unknown:
  "sessions sm k = None \<Longrightarrow> TruncateHistory k n sm w = (sm, w)"
  by (simp add: TruncateHistory_def)

lemma TruncateHistory_zero:
  "sessions sm k = Some s \<Longrightarrow> GetHistory k (fst (TruncateHistory k 0 sm w)) = []"
  by (simp add: TruncateHistory_def GetHistory_def time_Now_def)

lemma TruncateHistory_long:
  "sessions sm k = Some s \<Longrightarrow> int (length (Messages s)) \<le> n
     \<Longrightarrow> GetHistory k (fst (TruncateHistory k n sm w)) = Messages s"
  by (cases "Messages s") (auto simp add: TruncateHistory_def GetHistory_def time_Now_def)

lemma TruncateHistory_short:
  "sessions sm k = Some s \<Longrightarrow> 0 < n \<Longrightarrow> n < int (length (Messages s))
     \<Longrightarrow> GetHistory k (fst (TruncateHistory k n sm w))
           = drop (length (Messages s) - nat n) (Messages s)"
  by (auto simp add: TruncateHistory_def GetHistory_def time_Now_def nat_diff_distrib)

text \<open>
  Claim C4. For a session that exists, with a history of length L: truncating to 0
  empties the history; truncating to n with n at least L leaves the history as it is;
  truncating to n with 0 < n < L leaves the last n messages, in their order (the
  history without its first L - n messages, which has length n). For a key without a
  session, truncation changes neither the manager nor the world.
\<close>

theorem TruncateHistory_keeps_last:
  "(sessions sm k = None \<longrightarrow> TruncateHistory k n sm w = (sm, w)) \<and>
   (\<forall>s. sessions sm k = Some s \<longrightarrow>
      GetHistory k (fst (TruncateHistory k 0 sm w)) = [] \<and>
      (int (length (Messages s)) \<le> n \<longrightarrow>
         GetHistory k (fst (TruncateHistory k n sm w)) = Messages s) \<and>
      (0 < n \<and> n < int (length (Messages s)) \<longrightarrow>
         GetHistory k (fst (TruncateHistory k n sm w))
           = drop (length (Messages s) - nat n) (Messages s) \<and>
         int (length (GetHistory k (fst (TruncateHistory k n sm w)))) = n))"
proof (intro conjI allI impI)
  assume "sessions sm k = None"
  then show "TruncateHistory k n sm w = (sm, w)"
    by (rule TruncateHistory_unknown)
next
  fix s assume "sessions sm k = Some s"
  then show "GetHistory k (fst (TruncateHistory k 0 sm w)) = []"
    by (rule TruncateHistory_zero)
next
  fix s assume "sessions sm k = Some s" and "int (length (Messages s)) \<le> n"
  then show "GetHistory k (fst (TruncateHistory k n sm w)) = Messages s"
    by (rule TruncateHistory_long)
next
  fix s assume s: "sessions sm k = Some s" and n: "0 < n \<and> n < int (length (Messages s))"
  then show "GetHistory k (fst (TruncateHistory k n sm w))
           = drop (length (Messages s) - nat n) (Messages s)"
    by (simp add: TruncateHistory_short)
next
  fix s assume s: "sessions sm k = Some s" and n: "0 < n \<and> n < int (length (Messages s))"
  then have "GetHistory k (fst (TruncateHistory k n sm w))
           = drop (length (Messages s) - nat n) (Messages s)"
    by (simp add: TruncateHistory_short)
  with n show "int (length (GetHistory k (fst (TruncateHistory k n sm w)))) = n"
    by simp linarith
qed

theorem TruncateHistory_keeps_last_witness:
  "sessions (example_manager ''dir'') ''telegram:1'' = Some example_session \<and>
   sessions (example_manager ''dir'') ''other'' = None \<and>
   TruncateHistory ''other'' 2 (example_manager ''dir'') example_world
     = (example_manager ''dir'', example_world) \<and>
   GetHistory ''telegram:1''
       (fst (TruncateHistory ''telegram:1'' 0 (example_manager ''dir'') example_world)) = [] \<and>
   GetHistory ''telegram:1''
       (fst (TruncateHistory ''telegram:1'' 3 (example_manager ''dir'') example_world))
     = Messages example_session \<and>
   GetHistory ''telegram:1''
       (fst (TruncateHistory ''telegram:1'' 2 (example_manager ''dir'') example_world))
     = [plain_message ''assistant'' ''two'', plain_message ''user'' ''three'']"
  using TruncateHistory_keeps_last [of "example_manager ''dir''" "''other''" 2 example_world]
    TruncateHistory_keeps_last [of "example_manager ''dir''" "''telegram:1''" 3 example_world]
    TruncateHistory_keeps_last [of "example_manager ''dir''" "''telegram:1''" 2 example_world]
  by (simp add: example_manager_def example_session_def)

section \<open>Saving a session\<close>

lemma IsLocal_empty: "\<not> IsLocal []"
  by (simp add: IsLocal_def)

lemma IsLocal_dotdot: "\<not> IsLocal ''..''"
  by (simp add: IsLocal_def Clean_def clean_step_def)

lemma Save_rejects_empty:
  "storage sm \<noteq> [] \<Longrightarrow> sanitizeFilename k = [] \<Longrightarrow> Save L k sm w = (Inl ErrInvalid, w)"
  by (simp add: Save_def Let_def IsLocal_empty)

lemma Save_rejects_dot:
  "storage sm \<noteq> [] \<Longrightarrow> sanitizeFilename k = ''.'' \<Longrightarrow> Save L k sm w = (Inl ErrInvalid, w)"
  by (simp add: Save_def Let_def)

lemma Save_rejects_dotdot:
  "storage sm \<noteq> [] \<Longrightarrow> sanitizeFilename k = ''..'' \<Longrightarrow> Save L k sm w = (Inl ErrInvalid, w)"
  by (simp add: Save_def Let_def IsLocal_dotdot)

lemma Save_rejects_separator:
  "storage sm \<noteq> [] \<Longrightarrow>
   CHR ''/'' \<in> set (sanitizeFilename k) \<or> CHR 0x5C \<in> set (sanitizeFilename k)
     \<Longrightarrow> Save L k sm w = (Inl ErrInvalid, w)"
  unfolding Save_def Let_def ContainsAny_def by auto

text \<open>
  Claim C10. A manager with an empty storage path saves nothing: for every key,
  also one whose file name would be rejected, \<open>Save\<close> returns nil and leaves the
  world, and so every file, as it was. The test of the storage path comes first.
\<close>

theorem Save_empty_storage:
  "storage sm = [] \<Longrightarrow> Save L k sm w = (Inr (), w)"
  by (simp add: Save_def)

theorem Save_empty_storage_witness:
  "storage (example_manager []) = [] \<and>
   Save example_lib [] (example_manager []) example_world = (Inr (), example_world) \<and>
   Save example_lib ''.'' (example_manager []) example_world = (Inr (), example_world) \<and>
   Save example_lib ''..'' (example_manager []) example_world = (Inr (), example_world) \<and>
   Save example_lib ''foo/bar'' (example_manager []) example_world = (Inr (), example_world) \<and>
   Save example_lib (''foo'' @ [CHR 0x5C] @ ''bar'') (example_manager []) example_world
     = (Inr (), example_world)"
  using Save_empty_storage [of "example_manager []" example_lib _ example_world]
  by (simp add: example_manager_def)

text \<open>
  Claim C2, as stated, fails: with an empty storage path \<open>Save\<close> returns nil for the
  key \<open>..\<close>, whose file name is \<open>..\<close>.
\<close>

theorem Save_rejection_counterexample:
  "sanitizeFilename ''..'' = ''..'' \<and>
   fst (Save example_lib ''..'' (example_manager []) example_world) = Inr ()"
  by (simp add: Save_def example_manager_def sanitizeFilename_def ReplaceAll_char_def)

text \<open>
  Claim C2, amended. In a manager whose storage path is not empty, \<open>Save\<close> returns
  the error \<open>os.ErrInvalid\<close> and leaves the world, and so every file, as it was, for
  every key whose sanitized file name is empty, \<open>.\<close>, \<open>..\<close>, or contains \<open>/\<close> or a
  backslash; the keys of the test are among them.
\<close>

theorem Save_rejects_bad_filename:
  "storage sm \<noteq> [] \<Longrightarrow>
   (sanitizeFilename k = [] \<or> sanitizeFilename k = ''.'' \<or> sanitizeFilename k = ''..'' \<or>
    CHR ''/'' \<in> set (sanitizeFilename k) \<or> CHR 0x5C \<in> set (sanitizeFilename k)
      \<longrightarrow> Save L k sm w = (Inl ErrInvalid, w)) \<and>
   Save L [] sm w = (Inl ErrInvalid, w) \<and>
   Save L ''.'' sm w = (Inl ErrInvalid, w) \<and>
   Save L ''..'' sm w = (Inl ErrInvalid, w) \<and>
   Save L ''foo/bar'' sm w = (Inl ErrInvalid, w) \<and>
   Save L (''foo'' @ [CHR 0x5C] @ ''bar'') sm w = (Inl ErrInvalid, w)"
proof (intro conjI impI)
  assume dir: "storage sm \<noteq> []"
  assume "sanitizeFilename k = [] \<or> sanitizeFilename k = ''.'' \<or> sanitizeFilename k = ''..'' \<or>
    CHR ''/'' \<in> set (sanitizeFilename k) \<or> CHR 0x5C \<in> set (sanitizeFilename k)"
  then consider "sanitizeFilename k = []" | "sanitizeFilename k = ''.''"
    | "sanitizeFilename k = ''..''"
    | "CHR ''/'' \<in> set (sanitizeFilename k) \<or> CHR 0x5C \<in> set (sanitizeFilename k)"
    by blast
  then show "Save L k sm w = (Inl ErrInvalid, w)"
  proof cases
    case 1 with dir show ?thesis by (rule Save_rejects_empty)
  next
    case 2 with dir show ?thesis by (rule Save_rejects_dot)
  next
    case 3 with dir show ?thesis by (rule Save_rejects_dotdot)
  next
    case 4 with dir show ?thesis by (rule Save_rejects_separator)
  qed
next
  assume dir: "storage sm \<noteq> []"
  then show "Save L [] sm w = (Inl ErrInvalid, w)"
    by (simp add: Save_rejects_empty sanitizeFilename_def ReplaceAll_char_def)
next
  assume dir: "storage sm \<noteq> []"
  then show "Save L ''.'' sm w = (Inl ErrInvalid, w)"
    by (simp add: Save_rejects_dot sanitizeFilename_def ReplaceAll_char_def)
next
  assume dir: "storage sm \<noteq> []"
  then show "Save L ''..'' sm w = (Inl ErrInvalid, w)"
    by (simp add: Save_rejects_dotdot sanitizeFilename_def ReplaceAll_char_def)
next
  assume dir: "storage sm \<noteq> []"
  then show "Save L ''foo/bar'' sm w = (Inl ErrInvalid, w)"
    by (simp add: Save_rejects_separator sanitizeFilename_def ReplaceAll_char_def)
next
  assume dir: "storage sm \<noteq> []"
  then show "Save L (''foo'' @ [CHR 0x5C] @ ''bar'') sm w = (Inl ErrInvalid, w)"
    by (simp add: Save_rejects_separator sanitizeFilename_def ReplaceAll_char_def)
qed

theorem Save_rejects_bad_filename_witness:
  "storage (example_manager ''dir'') \<noteq> [] \<and>
   sanitizeFilename ''a/b:c'' = ''a/b_c'' \<and>
   Save example_lib ''a/b:c'' (example_manager ''dir'') example_world
     = (Inl ErrInvalid, example_world) \<and>
   Save example_lib ''..'' (example_manager ''dir'') example_world
     = (Inl ErrInvalid, example_world)"
  using Save_rejects_bad_filename [of "example_manager ''dir''" "''a/b:c''" example_lib example_world]
  by (simp add: example_manager_def sanitizeFilename_def ReplaceAll_char_def)

section \<open>The disabled message store\<close>

lemma NewMessageStore_disabled:
  "NewMessageStore \<lparr>Qdrant = example_config\<lparr>Enabled := False\<rparr>,
                     Embedding = \<lparr>emb_APIKey = [], emb_APIBase = [], emb_Model = []\<rparr>\<rparr> w
     = (Inr disabled_store, w)"
  by (simp add: NewMessageStore_def disabled_store_def)

text \<open>
  Claim C5. On a store whose \<open>enabled\<close> flag is false, \<open>StoreMessage\<close> and
  \<open>StoreMessages\<close> return nil, both searches return an empty list without an error,
  and \<open>DeleteSessionMessages\<close> returns nil. None of them changes the store or the
  world: no request is sent, whatever the clients of the store are.
\<close>

theorem disabled_store_is_noop:
  "\<not> enabled s \<Longrightarrow>
   StoreMessage L k msg i s w = ((Return (Inr ()), s), w) \<and>
   StoreMessages L msgs s w = ((Return (Inr ()), s), w) \<and>
   MS_SearchSimilarMessages L k q n s w = (Return (Inr []), w) \<and>
   SearchSimilarMessagesWithPayload L k q n s w = (Return (Inr []), w) \<and>
   DeleteSessionMessages k s w = (Return (Inr ()), w)"
  by (simp add: StoreMessage_def StoreMessages_def MS_SearchSimilarMessages_def
      SearchSimilarMessagesWithPayload_def DeleteSessionMessages_def)

theorem disabled_store_is_noop_witness:
  "\<not> enabled disabled_store \<and>
   StoreMessage example_lib ''test-session'' (plain_message ''user'' ''test message'') 0
       disabled_store example_world
     = ((Return (Inr ()), disabled_store), example_world) \<and>
   StoreMessages example_lib [example_stored ''a''] disabled_store example_world
     = ((Return (Inr ()), disabled_store), example_world) \<and>
   MS_SearchSimilarMessages example_lib ''test-session'' ''query'' 5 disabled_store example_world
     = (Return (Inr []), example_world) \<and>
   SearchSimilarMessagesWithPayload example_lib ''test-session'' ''query'' 5 disabled_store
       example_world
     = (Return (Inr []), example_world) \<and>
   DeleteSessionMessages ''test-session'' disabled_store example_world
     = (Return (Inr ()), example_world)"
  using disabled_store_is_noop [of disabled_store example_lib "''test-session''"
      "plain_message ''user'' ''test message''" 0 example_world "[example_stored ''a'']"
      "''query''" 5]
  by (simp add: disabled_store_def)

section \<open>Batch embedding\<close>

text \<open>
  Claim C7, as stated, fails: a client without a credential returns an error for the
  empty list of texts.
\<close>

theorem empty_batch_counterexample:
  "Mistral_GenerateEmbeddingsBatch (NewMistralEmbeddingClient [] [] []) [] example_world
     = (Inl (Errorf ''Mistral API key is not configured''), example_world)"
  by (simp add: Mistral_GenerateEmbeddingsBatch_def NewMistralEmbeddingClient_def)

text \<open>
  Claim C7, amended. With a credential, the batch operation returns the empty list of
  vectors for the empty list of texts and leaves the world as it was (no request is
  sent); without a credential it returns the error that the key is not configured, for
  every list of texts, and sends no request either.
\<close>

theorem empty_batch_needs_credential:
  "(apiKey c \<noteq> [] \<longrightarrow> Mistral_GenerateEmbeddingsBatch c [] w = (Inr [], w)) \<and>
   (apiKey c = [] \<longrightarrow>
      Mistral_GenerateEmbeddingsBatch c texts w
        = (Inl (Errorf ''Mistral API key is not configured''), w))"
  by (simp add: Mistral_GenerateEmbeddingsBatch_def)

theorem empty_batch_needs_credential_witness:
  "apiKey example_embedding \<noteq> [] \<and>
   Mistral_GenerateEmbeddingsBatch example_embedding [] example_world = (Inr [], example_world) \<and>
   apiKey (NewMistralEmbeddingClient [] [] []) = [] \<and>
   Mistral_GenerateEmbeddingsBatch (NewMistralEmbeddingClient [] [] []) [''a''] example_world
     = (Inl (Errorf ''Mistral API key is not configured''), example_world)"
  using empty_batch_needs_credential [of example_embedding example_world]
    empty_batch_needs_credential [of "NewMistralEmbeddingClient [] [] []" example_world "[''a'']"]
  by (simp add: example_embedding_def NewMistralEmbeddingClient_def)

section \<open>The batch store and the number of vectors\<close>

lemma create_points_no_panic:
  "i + length msgs \<le> length vectors \<Longrightarrow> fst (create_points L vectors msgs i ctr pts) \<noteq> Panic r"
  by (induction msgs arbitrary: i ctr pts) (auto simp: Let_def split: sum.splits)

lemma create_points_panics:
  "length vectors < i + length msgs \<Longrightarrow> msgs \<noteq> [] \<Longrightarrow>
   \<forall>m \<in> set msgs. time_MarshalJSON L (sm_Timestamp m) \<noteq> None \<Longrightarrow>
   fst (create_points L vectors msgs i ctr pts) = Panic ''index out of range''"
proof (induction msgs arbitrary: i ctr pts)
  case Nil then show ?case by simp
next
  case (Cons m msgs)
  then obtain ts where ts: "time_MarshalJSON L (sm_Timestamp m) = Some ts" by auto
  show ?case
  proof (cases "i < length vectors")
    case False
    with ts show ?thesis by (simp add: Let_def structToMap_def)
  next
    case True
    with Cons.prems have "msgs \<noteq> []" by auto
    with Cons True ts show ?thesis by (simp add: Let_def structToMap_def)
  qed
qed

lemma StoreMessages_in_range:
  assumes "embeddingClient s = Some ec"
    and "GenerateEmbeddingsBatch ec (map (\<lambda>m. Content (sm_Message m)) messages) w = (Inr vectors, w1)"
    and "length messages \<le> length vectors"
  shows "fst (fst (StoreMessages L messages s w)) \<noteq> Panic ''index out of range''"
proof (cases "enabled s")
  case False then show ?thesis by (simp add: StoreMessages_def)
next
  case True
  obtain r ctr where cp: "create_points L vectors messages 0 (pointCounter s) [] = (r, ctr)"
    by (cases "create_points L vectors messages 0 (pointCounter s) []")
  from assms(3) have "fst (create_points L vectors messages 0 (pointCounter s) []) \<noteq> Panic ''index out of range''"
    by (intro create_points_no_panic) simp
  with cp have r: "r \<noteq> Panic ''index out of range''" by simp
  show ?thesis
    using True assms(1,2) cp r
    by (auto simp add: StoreMessages_def Let_def UpsertPoints_def nil_dereference_def
          split: go.splits sum.splits prod.splits option.splits response.splits if_splits)
qed

lemma StoreMessages_out_of_range:
  assumes "enabled s" and "embeddingClient s = Some ec"
    and "GenerateEmbeddingsBatch ec (map (\<lambda>m. Content (sm_Message m)) messages) w = (Inr vectors, w1)"
    and "length vectors < length messages"
    and "\<forall>m \<in> set messages. time_MarshalJSON L (sm_Timestamp m) \<noteq> None"
  shows "fst (fst (StoreMessages L messages s w)) = Panic ''index out of range''"
proof -
  from assms(4) have ne: "messages \<noteq> []" by auto
  obtain r ctr where cp: "create_points L vectors messages 0 (pointCounter s) [] = (r, ctr)"
    by (cases "create_points L vectors messages 0 (pointCounter s) []")
  have "fst (create_points L vectors messages 0 (pointCounter s) []) = Panic ''index out of range''"
    using assms(4,5) ne by (intro create_points_panics) auto
  with cp have "r = Panic ''index out of range''" by simp
  with assms(1-3) cp show ?thesis
    by (simp add: StoreMessages_def Let_def)
qed

lemma Mistral_batch_returns_response:
  assumes "apiKey c \<noteq> []" and "texts \<noteq> []"
    and "marshal_error w (EmbeddingRequest (model c) texts) = None"
    and "url_error w (apiBase c @ ''/embeddings'') = None"
    and "respond w (sent w) (PostEmbeddings (apiBase c @ ''/embeddings'') (apiKey c) (model c) texts) = Response 200 b"
    and "embedding_data b = Some vectors"
  shows "Mistral_GenerateEmbeddingsBatch c texts w = (Inr vectors, w\<lparr>sent := sent w @ [PostEmbeddings (apiBase c @ ''/embeddings'') (apiKey c) (model c) texts]\<rparr>)"
  using assms by (simp add: Mistral_GenerateEmbeddingsBatch_def Let_def http_Do_def)

text \<open>
  Claim C9. \<open>StoreMessages\<close> reads \<open>vectors[i]\<close> for every message without comparing
  the number of vectors with the number of messages, and the Mistral client returns
  the vectors of the response, as many as there are. So for a store with that client
  and a response with status 200 that decodes to \<open>vectors\<close>: the client returns
  \<open>vectors\<close>; when there are at least as many vectors as messages, \<open>StoreMessages\<close>
  does not panic with an index out of range; when there are fewer (and every payload
  can be converted, so that the loop reaches the missing index), it does.
\<close>

theorem StoreMessages_unchecked_index:
  assumes "enabled s" and "embeddingClient s = Some (Mistral c)"
    and "apiKey c \<noteq> []" and "messages \<noteq> []"
    and "marshal_error w
           (EmbeddingRequest (model c) (map (\<lambda>m. Content (sm_Message m)) messages)) = None"
    and "url_error w (apiBase c @ ''/embeddings'') = None"
    and "respond w (sent w)
           (PostEmbeddings (apiBase c @ ''/embeddings'') (apiKey c) (model c)
              (map (\<lambda>m. Content (sm_Message m)) messages)) = Response 200 b"
    and "embedding_data b = Some vectors"
  shows "fst (Mistral_GenerateEmbeddingsBatch c (map (\<lambda>m. Content (sm_Message m)) messages) w)
           = Inr vectors \<and>
         (length messages \<le> length vectors \<longrightarrow>
            fst (fst (StoreMessages L messages s w)) \<noteq> Panic ''index out of range'') \<and>
         (length vectors < length messages \<and>
          (\<forall>m \<in> set messages. time_MarshalJSON L (sm_Timestamp m) \<noteq> None) \<longrightarrow>
            fst (fst (StoreMessages L messages s w)) = Panic ''index out of range'')"
proof -
  let ?texts = "map (\<lambda>m. Content (sm_Message m)) messages"
  let ?w1 = "w\<lparr>sent := sent w @
      [PostEmbeddings (apiBase c @ ''/embeddings'') (apiKey c) (model c) ?texts]\<rparr>"
  from assms(4) have "?texts \<noteq> []" by simp
  with assms have batch: "Mistral_GenerateEmbeddingsBatch c ?texts w = (Inr vectors, ?w1)"
    by (intro Mistral_batch_returns_response) auto
  then have call: "GenerateEmbeddingsBatch (Mistral c) ?texts w = (Inr vectors, ?w1)"
    by (simp add: Mistral_def)
  from batch have "fst (Mistral_GenerateEmbeddingsBatch c ?texts w) = Inr vectors"
    by simp
  moreover have "length messages \<le> length vectors \<longrightarrow>
      fst (fst (StoreMessages L messages s w)) \<noteq> Panic ''index out of range''"
    using StoreMessages_in_range [OF assms(2) call] by blast
  moreover have "length vectors < length messages \<and>
      (\<forall>m \<in> set messages. time_MarshalJSON L (sm_Timestamp m) \<noteq> None) \<longrightarrow>
      fst (fst (StoreMessages L messages s w)) = Panic ''index out of range''"
    using StoreMessages_out_of_range [OF assms(1) assms(2) call] by blast
  ultimately show ?thesis by blast
qed

theorem StoreMessages_unchecked_index_witness:
  "enabled example_store \<and>
   embeddingClient example_store = Some (Mistral example_embedding) \<and>
   apiKey example_embedding \<noteq> [] \<and>
   embedding_data example_body = Some [[1, 2, 3]] \<and>
   fst (fst (StoreMessages example_lib [example_stored ''a''] example_store example_world))
     \<noteq> Panic ''index out of range'' \<and>
   fst (fst (StoreMessages example_lib [example_stored ''a'', example_stored ''b'']
              example_store example_world))
     = Panic ''index out of range''"
  using StoreMessages_unchecked_index [of example_store example_embedding
      "[example_stored ''a'']" example_world example_body "[[1, 2, 3]]" example_lib]
    StoreMessages_unchecked_index [of example_store example_embedding
      "[example_stored ''a'', example_stored ''b'']" example_world example_body "[[1, 2, 3]]"
      example_lib]
  by (simp add: example_store_def example_world_def example_lib_def example_embedding_def
      example_config_def example_stored_def example_body_def plain_message_def
      NewMistralEmbeddingClient_def)

section \<open>The limit of the memory search\<close>

lemma Execute_search_call:
  "tool_messageStore t = Some store \<Longrightarrow> enabled store \<Longrightarrow>
   args ''query_text'' = Some (AString q) \<Longrightarrow> q \<noteq> [] \<Longrightarrow>
   Execute_search L t args w =
     (case SearchSimilarMessagesWithPayload L (Execute_sessionKey t args) q
             (Execute_limit L args) store w of
        (Panic r, w1) \<Rightarrow> (Panic r, w1)
      | (Return (Inl e), w1) \<Rightarrow>
          (Return (Inl \<lparr>ForLLM = ''Error searching memory: '' @ error_text e,
                        IsError = True\<rparr>), w1)
      | (Return (Inr messages), w1) \<Rightarrow> (Return (Inr messages), w1))"
  by (simp add: Execute_search_def IsEnabled_def)

text \<open>
  Claim C3, as stated, fails: the string \<open>9223372036854775808\<close> asks for a limit above
  20 (it is the numeral of \<open>2 ^ 63\<close>), \<open>strconv.Atoi\<close> rejects it as out of range, and
  \<open>Execute\<close> searches with the default limit 5, not with 20.
\<close>

theorem Execute_limit_counterexample:
  "decimal ''9223372036854775808'' = 2 ^ 63 \<and>
   Atoi ''9223372036854775808'' = None \<and>
   Execute_limit example_lib
     [''query_text'' \<mapsto> AString ''test'', ''limit'' \<mapsto> AString ''9223372036854775808''] = 5 \<and>
   sent (snd (Execute_search example_lib example_tool
                [''query_text'' \<mapsto> AString ''test'',
                 ''limit'' \<mapsto> AString ''9223372036854775808''] example_world))
     = [PostEmbeddings ''https://api.mistral.ai/v1/embeddings'' ''key'' ''mistral-embed'' [''test''],
        PostSearch ''http://localhost:6333/collections/messages/points/search'' []
          [1, 2, 3] 5 (Some ''telegram:1'')]"
proof -
  let ?a = "[''query_text'' \<mapsto> AString ''test'', ''limit'' \<mapsto> AString ''9223372036854775808'']"
  have d: "decimal ''9223372036854775808'' = 2 ^ 63"
    by (simp add: decimal_def)
  have a: "Atoi ''9223372036854775808'' = None"
    by (simp add: Atoi_def is_digit_def decimal_def)
  have l: "Execute_limit example_lib ?a = 5"
    by (simp add: Execute_limit_def Execute_requested_def a)
  have "Execute_search example_lib example_tool ?a example_world =
        (case SearchSimilarMessagesWithPayload example_lib (Execute_sessionKey example_tool ?a) ''test''
                (Execute_limit example_lib ?a) example_store example_world of
           (Panic r, w1) \<Rightarrow> (Panic r, w1)
         | (Return (Inl e), w1) \<Rightarrow>
             (Return (Inl \<lparr>ForLLM = ''Error searching memory: '' @ error_text e,
                        IsError = True\<rparr>), w1)
         | (Return (Inr messages), w1) \<Rightarrow> (Return (Inr messages), w1))"
    by (rule Execute_search_call) (simp_all add: example_tool_def example_store_def)
  then have "sent (snd (Execute_search example_lib example_tool ?a example_world)) =
      sent (snd (case SearchSimilarMessagesWithPayload example_lib (Execute_sessionKey example_tool ?a) ''test''
                5 example_store example_world of
           (Panic r, w1) \<Rightarrow> (Panic r, w1)
         | (Return (Inl e), w1) \<Rightarrow>
             (Return (Inl \<lparr>ForLLM = ''Error searching memory: '' @ error_text e,
                        IsError = True\<rparr>), w1)
         | (Return (Inr messages), w1) \<Rightarrow> (Return (Inr messages), w1)))"
    by (simp only: l)
  also have "\<dots> = [PostEmbeddings ''https://api.mistral.ai/v1/embeddings'' ''key'' ''mistral-embed'' [''test''],
        PostSearch ''http://localhost:6333/collections/messages/points/search'' []
          [1, 2, 3] 5 (Some ''telegram:1'')]"
    by (simp add: SearchSimilarMessagesWithPayload_def Mistral_def Mistral_GenerateEmbedding_def
        http_Do_def Let_def Search_def collection_url_def NewQdrantClient_def Sprintf_d_def
        Execute_sessionKey_def example_store_def example_world_def example_embedding_def
        example_config_def example_body_def NewMistralEmbeddingClient_def example_tool_def)
  finally show ?thesis
    using d a l by simp
qed

text \<open>
  Claim C3, amended. Whatever the arguments are, the limit \<open>Execute\<close> uses lies between 1
  and 20, and when \<open>Execute\<close> searches, it passes this limit to
  \<open>SearchSimilarMessagesWithPayload\<close>. When the argument \<open>limit\<close> is an \<open>int\<close>, a \<open>float64\<close>
  whose integer part a 64-bit \<open>int\<close> holds (the number requested is then this integer part)
  or a string that \<open>strconv.Atoi\<close> accepts, a request below 1 (0, say) becomes 1, a request
  above 20 (100, say) becomes 20, and a request in between is used as it is. A \<open>float64\<close>
  that is not finite or too large is converted as the implementation does, and the result
  is clamped in the same way. When the argument is a string that \<open>strconv.Atoi\<close> rejects
  (a numeral outside the range of \<open>int\<close> included), is missing or has another type, the
  limit is the default 5.
\<close>

theorem Execute_limit_clamped:
  "1 \<le> Execute_limit L args \<and> Execute_limit L args \<le> 20 \<and>
   (\<forall>v. args ''limit'' = Some (AInt v) \<longrightarrow>
      Execute_limit L args = (if v < 1 then 1 else if 20 < v then 20 else v)) \<and>
   (\<forall>f v. args ''limit'' = Some (AFloat64 f) \<and> float64_truncated f = Some v \<longrightarrow>
      Execute_limit L args = (if v < 1 then 1 else if 20 < v then 20 else v)) \<and>
   (\<forall>f v. args ''limit'' = Some (AFloat64 f) \<and> float64_truncated f = None \<and>
      int_of_float64 L f = v \<longrightarrow>
      Execute_limit L args = (if v < 1 then 1 else if 20 < v then 20 else v)) \<and>
   (\<forall>s v. args ''limit'' = Some (AString s) \<and> Atoi s = Some v \<longrightarrow>
      Execute_limit L args = (if v < 1 then 1 else if 20 < v then 20 else v)) \<and>
   (\<forall>s. args ''limit'' = Some (AString s) \<and> Atoi s = None \<longrightarrow> Execute_limit L args = 5) \<and>
   ((\<forall>v. args ''limit'' \<noteq> Some (AInt v)) \<and> (\<forall>f. args ''limit'' \<noteq> Some (AFloat64 f)) \<and>
    (\<forall>s. args ''limit'' \<noteq> Some (AString s)) \<longrightarrow> Execute_limit L args = 5) \<and>
   (\<forall>t store q w.
      tool_messageStore t = Some store \<and> enabled store \<and>
      args ''query_text'' = Some (AString q) \<and> q \<noteq> [] \<longrightarrow>
      Execute_search L t args w =
        (case SearchSimilarMessagesWithPayload L (Execute_sessionKey t args) q
                (Execute_limit L args) store w of
           (Panic r, w1) \<Rightarrow> (Panic r, w1)
         | (Return (Inl e), w1) \<Rightarrow>
             (Return (Inl \<lparr>ForLLM = ''Error searching memory: '' @ error_text e,
                        IsError = True\<rparr>), w1)
         | (Return (Inr messages), w1) \<Rightarrow> (Return (Inr messages), w1)))"
proof -
  have "1 \<le> Execute_limit L args \<and> Execute_limit L args \<le> 20"
    by (simp add: Execute_limit_def Let_def)
  moreover have "\<forall>v. args ''limit'' = Some (AInt v) \<longrightarrow>
      Execute_limit L args = (if v < 1 then 1 else if 20 < v then 20 else v)"
    by (simp add: Execute_limit_def Execute_requested_def Let_def)
  moreover have "\<forall>f v. args ''limit'' = Some (AFloat64 f) \<and> float64_truncated f = Some v \<longrightarrow>
      Execute_limit L args = (if v < 1 then 1 else if 20 < v then 20 else v)"
    by (simp add: Execute_limit_def Execute_requested_def int_conversion_def Let_def)
  moreover have "\<forall>f v. args ''limit'' = Some (AFloat64 f) \<and> float64_truncated f = None \<and>
      int_of_float64 L f = v \<longrightarrow>
      Execute_limit L args = (if v < 1 then 1 else if 20 < v then 20 else v)"
    by (auto simp add: Execute_limit_def Execute_requested_def int_conversion_def Let_def)
  moreover have "\<forall>s v. args ''limit'' = Some (AString s) \<and> Atoi s = Some v \<longrightarrow>
      Execute_limit L args = (if v < 1 then 1 else if 20 < v then 20 else v)"
    by (simp add: Execute_limit_def Execute_requested_def Let_def)
  moreover have "\<forall>s. args ''limit'' = Some (AString s) \<and> Atoi s = None \<longrightarrow>
      Execute_limit L args = 5"
    by (simp add: Execute_limit_def Execute_requested_def Let_def)
  moreover have "(\<forall>v. args ''limit'' \<noteq> Some (AInt v)) \<and>
      (\<forall>f. args ''limit'' \<noteq> Some (AFloat64 f)) \<and>
      (\<forall>s. args ''limit'' \<noteq> Some (AString s)) \<longrightarrow> Execute_limit L args = 5"
    by (simp add: Execute_limit_def Execute_requested_def Let_def
        split: option.split any.split)
  ultimately show ?thesis
    using Execute_search_call [of _ _ args _ L] by blast
qed

theorem Execute_limit_clamped_witness:
  "Execute_limit example_lib [''query_text'' \<mapsto> AString ''test'', ''limit'' \<mapsto> AInt 0] = 1 \<and>
   Execute_limit example_lib [''query_text'' \<mapsto> AString ''test'', ''limit'' \<mapsto> AInt 100] = 20 \<and>
   Execute_limit example_lib [''query_text'' \<mapsto> AString ''test'', ''limit'' \<mapsto> AInt 7] = 7 \<and>
   Execute_limit example_lib
     [''query_text'' \<mapsto> AString ''test'', ''limit'' \<mapsto> AFloat64 0] = 1 \<and>
   Execute_limit example_lib
     [''query_text'' \<mapsto> AString ''test'', ''limit'' \<mapsto> AFloat64 0x4059000000000000] = 20 \<and>
   Execute_limit example_lib
     [''query_text'' \<mapsto> AString ''test'', ''limit'' \<mapsto> AFloat64 0x4004000000000000] = 2 \<and>
   Execute_limit example_lib [''query_text'' \<mapsto> AString ''test'', ''limit'' \<mapsto> AString ''0''] = 1 \<and>
   Execute_limit example_lib [''query_text'' \<mapsto> AString ''test'', ''limit'' \<mapsto> AString ''100''] = 20 \<and>
   Execute_limit example_lib [''query_text'' \<mapsto> AString ''test'', ''limit'' \<mapsto> AString ''ten''] = 5 \<and>
   Execute_limit example_lib [''query_text'' \<mapsto> AString ''test''] = 5 \<and>
   sent (snd (Execute_search example_lib example_tool
                [''query_text'' \<mapsto> AString ''test'', ''limit'' \<mapsto> AFloat64 0x4059000000000000]
                example_world))
     = [PostEmbeddings ''https://api.mistral.ai/v1/embeddings'' ''key'' ''mistral-embed'' [''test''],
        PostSearch ''http://localhost:6333/collections/messages/points/search'' []
          [1, 2, 3] 20 (Some ''telegram:1'')]"
proof -
  let ?i0 = "[''query_text'' \<mapsto> AString ''test'', ''limit'' \<mapsto> AInt 0]"
  let ?i100 = "[''query_text'' \<mapsto> AString ''test'', ''limit'' \<mapsto> AInt 100]"
  let ?i7 = "[''query_text'' \<mapsto> AString ''test'', ''limit'' \<mapsto> AInt 7]"
  let ?f0 = "[''query_text'' \<mapsto> AString ''test'', ''limit'' \<mapsto> AFloat64 0]"
  let ?f100 = "[''query_text'' \<mapsto> AString ''test'', ''limit'' \<mapsto> AFloat64 0x4059000000000000]"
  let ?f2 = "[''query_text'' \<mapsto> AString ''test'', ''limit'' \<mapsto> AFloat64 0x4004000000000000]"
  let ?s0 = "[''query_text'' \<mapsto> AString ''test'', ''limit'' \<mapsto> AString ''0'']"
  let ?s100 = "[''query_text'' \<mapsto> AString ''test'', ''limit'' \<mapsto> AString ''100'']"
  let ?sten = "[''query_text'' \<mapsto> AString ''test'', ''limit'' \<mapsto> AString ''ten'']"
  let ?none = "[''query_text'' \<mapsto> AString ''test'']"
  note c = Execute_limit_clamped [of example_lib]
  have t0: "float64_truncated 0 = Some 0"
    and t100: "float64_truncated 0x4059000000000000 = Some 100"
    and t2: "float64_truncated 0x4004000000000000 = Some 2"
    by (simp_all add: float64_truncated_def float64_exponent_def float64_fraction_def
        float64_negative_def Let_def)
  have p0: "Atoi ''0'' = Some 0" and p100: "Atoi ''100'' = Some 100" and pten: "Atoi ''ten'' = None"
    by (simp_all add: Atoi_def is_digit_def decimal_def)
  from c [of ?i0] have i0: "Execute_limit example_lib ?i0 = 1" by simp
  from c [of ?i100] have i100: "Execute_limit example_lib ?i100 = 20" by simp
  from c [of ?i7] have i7: "Execute_limit example_lib ?i7 = 7" by simp
  from c [of ?f0] t0 have f0: "Execute_limit example_lib ?f0 = 1" by simp
  from c [of ?f100] t100 have f100: "Execute_limit example_lib ?f100 = 20" by simp
  from c [of ?f2] t2 have f2: "Execute_limit example_lib ?f2 = 2" by simp
  from c [of ?s0] p0 have s0: "Execute_limit example_lib ?s0 = 1" by simp
  from c [of ?s100] p100 have s100: "Execute_limit example_lib ?s100 = 20" by simp
  from c [of ?sten] pten have sten: "Execute_limit example_lib ?sten = 5" by simp
  from c [of ?none] have none: "Execute_limit example_lib ?none = 5" by simp
  have prem: "tool_messageStore example_tool = Some example_store \<and> enabled example_store \<and>
      ?f100 ''query_text'' = Some (AString ''test'') \<and> ''test'' \<noteq> []"
    by (simp add: example_tool_def example_store_def)
  from c [of ?f100] have "tool_messageStore example_tool = Some example_store \<and> enabled example_store \<and>
      ?f100 ''query_text'' = Some (AString ''test'') \<and> ''test'' \<noteq> [] \<longrightarrow>
      Execute_search example_lib example_tool ?f100 example_world =
        (case SearchSimilarMessagesWithPayload example_lib (Execute_sessionKey example_tool ?f100) ''test''
                (Execute_limit example_lib ?f100) example_store example_world of
           (Panic r, w1) \<Rightarrow> (Panic r, w1)
         | (Return (Inl e), w1) \<Rightarrow>
             (Return (Inl \<lparr>ForLLM = ''Error searching memory: '' @ error_text e,
                        IsError = True\<rparr>), w1)
         | (Return (Inr messages), w1) \<Rightarrow> (Return (Inr messages), w1))"
    by blast
  with prem have "Execute_search example_lib example_tool ?f100 example_world =
        (case SearchSimilarMessagesWithPayload example_lib (Execute_sessionKey example_tool ?f100) ''test''
                (Execute_limit example_lib ?f100) example_store example_world of
           (Panic r, w1) \<Rightarrow> (Panic r, w1)
         | (Return (Inl e), w1) \<Rightarrow>
             (Return (Inl \<lparr>ForLLM = ''Error searching memory: '' @ error_text e,
                        IsError = True\<rparr>), w1)
         | (Return (Inr messages), w1) \<Rightarrow> (Return (Inr messages), w1))"
    by blast
  then have "sent (snd (Execute_search example_lib example_tool ?f100 example_world)) =
      sent (snd (case SearchSimilarMessagesWithPayload example_lib (Execute_sessionKey example_tool ?f100) ''test''
                20 example_store example_world of
           (Panic r, w1) \<Rightarrow> (Panic r, w1)
         | (Return (Inl e), w1) \<Rightarrow>
             (Return (Inl \<lparr>ForLLM = ''Error searching memory: '' @ error_text e,
                        IsError = True\<rparr>), w1)
         | (Return (Inr messages), w1) \<Rightarrow> (Return (Inr messages), w1)))"
    by (simp only: f100)
  also have "\<dots> = [PostEmbeddings ''https://api.mistral.ai/v1/embeddings'' ''key'' ''mistral-embed'' [''test''],
        PostSearch ''http://localhost:6333/collections/messages/points/search'' []
          [1, 2, 3] 20 (Some ''telegram:1'')]"
    by (simp add: SearchSimilarMessagesWithPayload_def Mistral_def Mistral_GenerateEmbedding_def
        http_Do_def Let_def Search_def collection_url_def NewQdrantClient_def Sprintf_d_def
        Execute_sessionKey_def example_store_def example_world_def example_embedding_def
        example_config_def example_body_def NewMistralEmbeddingClient_def example_tool_def)
  finally have s: "sent (snd (Execute_search example_lib example_tool ?f100 example_world))
     = [PostEmbeddings ''https://api.mistral.ai/v1/embeddings'' ''key'' ''mistral-embed'' [''test''],
        PostSearch ''http://localhost:6333/collections/messages/points/search'' []
          [1, 2, 3] 20 (Some ''telegram:1'')]" .
  from i0 i100 i7 f0 f100 f2 s0 s100 sten none s show ?thesis by simp
qed

section \<open>The payload converted to a map and back\<close>

lemma json_text_valid: "ValidString s \<Longrightarrow> json_text s = s"
proof (induction s rule: json_text.induct)
  case 1
  then show ?case by simp
next
  case (2 c cs)
  let ?n = "rune_len (c # cs)"
  from "2.prems" have n: "?n \<noteq> 0" and v: "ValidString (drop ?n (c # cs))"
    by (auto simp: Let_def split: if_splits)
  from "2.IH"(2) [OF refl n v] have "json_text (drop ?n (c # cs)) = drop ?n (c # cs)" .
  then have "json_text (c # cs) = take ?n (c # cs) @ drop ?n (c # cs)"
    using n by (simp add: Let_def del: rune_len.simps)
  then show ?case by (simp del: rune_len.simps)
qed

lemma round_trip_fields:
  assumes "payload_round_trip L p = Inr p'"
  shows "mp_Role p' = json_text (json_text (mp_Role p)) \<and>
         mp_Content p' = json_text (json_text (mp_Content p))"
  using assms
  by (auto simp add: payload_round_trip_def structToMap_def payloadToMessagePayload_def
      string_field_def split: option.splits sum.splits)

lemma round_trip_succeeds:
  "(\<exists>p'. payload_round_trip L p = Inr p') \<longleftrightarrow>
   (\<exists>ts t i. time_MarshalJSON L (Timestamp p) = Some ts \<and>
      time_UnmarshalJSON L (json_text (json_text ts)) = Some t \<and>
      int_of_float64_literal L (float64_of_literal L (MessageIndex p)) = Some i)"
  by (auto simp add: payload_round_trip_def structToMap_def payloadToMessagePayload_def
      string_field_def time_field_def int_field_def split: option.splits sum.splits)

text \<open>
  Claim C6, as stated, fails: the payload whose role is the single byte FF, which is
  not valid UTF-8, comes back with the three bytes of U+FFFD as its role.
\<close>

theorem payload_round_trip_counterexample:
  "mp_Role invalid_payload = [CHR 0xFF] \<and>
   map_sum id mp_Role (payload_round_trip example_lib invalid_payload)
     = Inr [CHR 0xEF, CHR 0xBF, CHR 0xBD]"
  by (simp add: payload_round_trip_def structToMap_def payloadToMessagePayload_def
      string_field_def time_field_def int_field_def invalid_payload_def example_payload_def
      example_lib_def replacement_char_def in_range_def second_lo_def second_hi_def
      Sprintf_d_def Atoi_def is_digit_def decimal_def)

text \<open>
  Claim C6, amended. For every payload whose role and content are valid UTF-8:
  whenever the conversion to a map and back yields a payload, its role and content
  are those of the original; and it yields one exactly when the time can be written
  as JSON and read back, and the number made of the index can be read back as an
  \<open>int\<close>.
\<close>

theorem payload_round_trip_valid_utf8:
  assumes "ValidString (mp_Role p)" and "ValidString (mp_Content p)"
  shows "(\<forall>p'. payload_round_trip L p = Inr p' \<longrightarrow>
            mp_Role p' = mp_Role p \<and> mp_Content p' = mp_Content p) \<and>
         ((\<exists>p'. payload_round_trip L p = Inr p') \<longleftrightarrow>
          (\<exists>ts t i. time_MarshalJSON L (Timestamp p) = Some ts \<and>
             time_UnmarshalJSON L (json_text (json_text ts)) = Some t \<and>
             int_of_float64_literal L (float64_of_literal L (MessageIndex p)) = Some i))"
proof (intro conjI allI impI)
  fix p' assume rt: "payload_round_trip L p = Inr p'"
  from round_trip_fields [OF rt] assms(1) show "mp_Role p' = mp_Role p"
    by (simp add: json_text_valid)
  from round_trip_fields [OF rt] assms(2) show "mp_Content p' = mp_Content p"
    by (simp add: json_text_valid)
next
  show "(\<exists>p'. payload_round_trip L p = Inr p') \<longleftrightarrow>
          (\<exists>ts t i. time_MarshalJSON L (Timestamp p) = Some ts \<and>
             time_UnmarshalJSON L (json_text (json_text ts)) = Some t \<and>
             int_of_float64_literal L (float64_of_literal L (MessageIndex p)) = Some i)"
    by (rule round_trip_succeeds)
qed

theorem payload_round_trip_valid_utf8_witness:
  "ValidString (mp_Role example_payload) \<and> ValidString (mp_Content example_payload) \<and>
   payload_round_trip example_lib example_payload = Inr example_payload \<and>
   (\<exists>p'. payload_round_trip example_lib example_payload = Inr p' \<and>
         mp_Role p' = ''user'' \<and> mp_Content p' = ''Hello, World!'')"
proof -
  have v: "ValidString (mp_Role example_payload)" "ValidString (mp_Content example_payload)"
    by (simp_all add: example_payload_def)
  have rt: "payload_round_trip example_lib example_payload = Inr example_payload"
    by (simp add: payload_round_trip_def structToMap_def payloadToMessagePayload_def
      string_field_def time_field_def int_field_def example_payload_def
      example_lib_def Sprintf_d_def Atoi_def is_digit_def decimal_def)
  from payload_round_trip_valid_utf8 [OF v, of example_lib] rt
  have "mp_Role example_payload = ''user'' \<and> mp_Content example_payload = ''Hello, World!''"
    by (simp add: example_payload_def)
  with rt v show ?thesis by simp
qed

section \<open>Which messages are handed to the message store\<close>

lemma embedded_texts_append: "embedded_texts (xs @ ys) = embedded_texts xs @ embedded_texts ys"
  by (induction xs rule: embedded_texts.induct) auto

lemma Mistral_GenerateEmbedding_sent:
  assumes "apiKey c \<noteq> []" and "marshal_error w (EmbeddingRequest (model c) [txt]) = None"
    and "url_error w (apiBase c @ ''/embeddings'') = None"
  shows "sent (snd (Mistral_GenerateEmbedding c txt w))
           = sent w @ [PostEmbeddings (apiBase c @ ''/embeddings'') (apiKey c) (model c) [txt]]"
  using assms
  by (simp add: Mistral_GenerateEmbedding_def Let_def http_Do_def
      split: response.splits option.splits list.splits)

lemma UpsertPoints_embedded:
  "UpsertPoints cp points w = (r, w') \<Longrightarrow> embedded_texts (sent w') = embedded_texts (sent w)"
  by (auto simp add: UpsertPoints_def Let_def http_Do_def embedded_texts_append
      split: response.splits option.splits if_splits)

lemma StoreMessage_embedded:
  assumes "enabled s" and "embeddingClient s = Some (Mistral c)"
    and "apiKey c \<noteq> []"
    and "marshal_error w (EmbeddingRequest (model c) [Content msg]) = None"
    and "url_error w (apiBase c @ ''/embeddings'') = None"
    and "StoreMessage L k msg i s w = (r, w')"
  shows "embedded_texts (sent w') = embedded_texts (sent w) @ [Content msg]"
proof -
  obtain g w1 where g: "Mistral_GenerateEmbedding c (Content msg) w = (g, w1)"
    by (cases "Mistral_GenerateEmbedding c (Content msg) w")
  with Mistral_GenerateEmbedding_sent [OF assms(3,4,5)]
  have w1: "embedded_texts (sent w1) = embedded_texts (sent w) @ [Content msg]"
    by (simp add: embedded_texts_append)
  show ?thesis
  proof (cases g)
    case (Inl e)
    with assms g w1 show ?thesis
      by (auto simp add: StoreMessage_def Mistral_def)
  next
    case (Inr vector)
    with assms g w1 show ?thesis
      by (auto simp add: StoreMessage_def Mistral_def time_Now_def Let_def
          split: sum.splits prod.splits go.splits dest!: UpsertPoints_embedded)
  qed
qed

lemma AddFullMessage_forwarding:
  assumes "messageStore sm = Some s" and "enabled s" and "embeddingClient s = Some (Mistral c)"
    and "apiKey c \<noteq> []"
    and "marshal_error w (EmbeddingRequest (model c) [Content msg]) = None"
    and "url_error w (apiBase c @ ''/embeddings'') = None"
  shows "embedded_texts (sent (snd (AddFullMessage L k msg sm w)))
           = embedded_texts (sent w) @
             (if k \<noteq> ''heartbeat'' \<and> Role msg \<noteq> ''tool'' \<and> Role msg \<noteq> ''system''
                 \<and> Content msg \<noteq> []
              then [Content msg] else [])"
proof -
  have st: "\<And>w0 i r w'. marshal_error w0 = marshal_error w \<Longrightarrow>
          url_error w0 = url_error w \<Longrightarrow> sent w0 = sent w \<Longrightarrow>
          StoreMessage L k msg i s w0 = (r, w') \<Longrightarrow>
          embedded_texts (sent w') = embedded_texts (sent w) @ [Content msg]"
    using StoreMessage_embedded [OF assms(2,3,4)] assms(5,6) by metis
  show ?thesis
    using assms(1,2)
    by (auto simp add: AddFullMessage_def IsEnabled_def time_Now_def Let_def
        split: option.splits prod.splits go.splits sum.splits dest!: st [rotated 3])
qed

text \<open>
  Claim C1 at its own input. The four messages are appended to a session that is not
  the heartbeat session, in a manager whose store is enabled. Three texts are sent to
  the embedding service and three points are upserted: the assistant message that
  carries the tool call is handed to the store like the question and the final answer,
  and only the tool's result is left out. \<open>AddFullMessage\<close> never reads \<open>ToolCalls\<close>
  (see \<open>AddFullMessage_forwarding\<close>), although the test named above counts that
  message as filtered.
\<close>

theorem tool_call_message_is_forwarded:
  "embedded_texts (sent (snd (add_messages example_lib ''test:session'' tool_call_conversation
                               indexing_manager example_world)))
     = [''What is 2+2?'', ''Let me calculate...'', ''The answer is 4''] \<and>
   upserted_ids (sent (snd (add_messages example_lib ''test:session'' tool_call_conversation
                              indexing_manager example_world)))
     = [1, 2, 3] \<and>
   GetHistory ''test:session''
       (fst (add_messages example_lib ''test:session'' tool_call_conversation
               indexing_manager example_world))
     = tool_call_conversation"
  by (simp add: example_store_def example_world_def example_lib_def example_embedding_def
      example_config_def example_body_def NewMistralEmbeddingClient_def indexing_manager_def
      tool_call_conversation_def AddFullMessage_def StoreMessage_def IsEnabled_def time_Now_def
      Mistral_def Mistral_GenerateEmbedding_def http_Do_def Let_def structToMap_def
      UpsertPoints_def collection_url_def NewQdrantClient_def Sprintf_d_def GetHistory_def)

section \<open>The identifiers of the points\<close>

lemma sint_succ: "sint (x :: 64 word) + 1 < 2 ^ 63 \<Longrightarrow> sint (x + 1) = sint x + 1"
proof -
  assume a: "sint x + 1 < 2 ^ 63"
  have lo: "- (2 ^ 63) \<le> sint x" using sint_ge [of x] by simp
  have "sint (x + 1) = signed_take_bit 63 (sint x + 1)"
    by (simp add: sint_word_ariths)
  also have "\<dots> = sint x + 1"
    using a lo by (intro signed_take_bit_int_eq_self) auto
  finally show ?thesis .
qed

lemma upserted_ids_append: "upserted_ids (xs @ ys) = upserted_ids xs @ upserted_ids ys"
  by (induction xs rule: upserted_ids.induct) auto

lemma create_points_ids:
  "create_points L vs msgs i ctr pts = (r, ctr') \<Longrightarrow> sint ctr + int (length msgs) < 2 ^ 63 \<Longrightarrow>
   sint ctr \<le> sint ctr' \<and> sint ctr' \<le> sint ctr + int (length msgs) \<and>
   (\<forall>pts'. r = Return (Inr pts') \<longrightarrow>
      (\<exists>new. pts' = pts @ new \<and> length new = length msgs \<and>
         sorted_wrt (<) (map (\<lambda>p. sint (pt_ID p)) new) \<and>
         (\<forall>p \<in> set new. sint ctr < sint (pt_ID p) \<and> sint (pt_ID p) \<le> sint ctr')))"
proof (induction msgs arbitrary: i ctr pts)
  case Nil
  then show ?case by (auto intro!: exI [of _ "[]"])
next
  case (Cons m msgs)
  from Cons.prems(2) have s1: "sint (ctr + 1) = sint ctr + 1"
    by (intro sint_succ) simp
  show ?case
  proof (cases "structToMap L \<lparr>SessionKey = sm_SessionKey m, mp_Role = Role (sm_Message m),
                      mp_Content = Content (sm_Message m), Timestamp = sm_Timestamp m,
                      MessageIndex = sm_Index m\<rparr>")
    case (Inl e)
    with Cons.prems s1 show ?thesis by (auto simp: Let_def)
  next
    case (Inr pm)
    show ?thesis
    proof (cases "i < length vs")
      case False
      with Inr Cons.prems s1 show ?thesis by (auto simp: Let_def)
    next
      case True
      let ?p = "\<lparr>pt_ID = ctr + 1, pt_Vector = vs ! i, pt_Payload = pm\<rparr>"
      from Inr True Cons.prems(1)
      have rec: "create_points L vs msgs (Suc i) (ctr + 1) (pts @ [?p]) = (r, ctr')"
        by (simp add: Let_def)
      from Cons.prems(2) s1 have bound: "sint (ctr + 1) + int (length msgs) < 2 ^ 63" by simp
      note ih = Cons.IH [OF rec bound]
      from ih s1 have c: "sint ctr \<le> sint ctr'" "sint ctr' \<le> sint ctr + int (length (m # msgs))"
        by auto
      have "\<forall>pts'. r = Return (Inr pts') \<longrightarrow>
        (\<exists>new. pts' = pts @ new \<and> length new = length (m # msgs) \<and>
           sorted_wrt (<) (map (\<lambda>p. sint (pt_ID p)) new) \<and>
         (\<forall>p \<in> set new. sint ctr < sint (pt_ID p) \<and> sint (pt_ID p) \<le> sint ctr'))"
      proof (intro allI impI)
        fix pts' assume "r = Return (Inr pts')"
        with ih obtain new where new: "pts' = (pts @ [?p]) @ new" "length new = length msgs"
          "sorted_wrt (<) (map (\<lambda>p. sint (pt_ID p)) new)"
          "\<forall>p \<in> set new. sint (ctr + 1) < sint (pt_ID p) \<and> sint (pt_ID p) \<le> sint ctr'"
          by blast
        from new ih s1 have "pts' = pts @ (?p # new) \<and> length (?p # new) = length (m # msgs) \<and>
           sorted_wrt (<) (map (\<lambda>p. sint (pt_ID p)) (?p # new)) \<and>
           (\<forall>p \<in> set (?p # new). sint ctr < sint (pt_ID p) \<and> sint (pt_ID p) \<le> sint ctr')"
          by auto
        then show "\<exists>new. pts' = pts @ new \<and> length new = length (m # msgs) \<and>
           sorted_wrt (<) (map (\<lambda>p. sint (pt_ID p)) new) \<and>
         (\<forall>p \<in> set new. sint ctr < sint (pt_ID p) \<and> sint (pt_ID p) \<le> sint ctr')"
          by blast
      qed
      with c show ?thesis by blast
    qed
  qed
qed


lemma ids_extend:
  assumes "sorted_wrt (<) (map sint xs)" and "\<forall>x \<in> set xs. sint x \<le> c" and "c \<le> c'"
    and "sorted_wrt (<) (map sint new)" and "\<forall>x \<in> set new. c < sint x \<and> sint x \<le> c'"
  shows "sorted_wrt (<) (map sint (xs @ new)) \<and> (\<forall>x \<in> set (xs @ new). sint x \<le> c')"
  using assms by (fastforce simp add: sorted_wrt_append)

lemma Mistral_GenerateEmbedding_ids:
  "Mistral_GenerateEmbedding c t w = (r, w') \<Longrightarrow> upserted_ids (sent w') = upserted_ids (sent w)"
  by (auto simp add: Mistral_GenerateEmbedding_def Let_def http_Do_def upserted_ids_append
      split: response.splits option.splits if_splits list.splits)

lemma Mistral_GenerateEmbeddingsBatch_ids:
  "Mistral_GenerateEmbeddingsBatch c ts w = (r, w') \<Longrightarrow>
   upserted_ids (sent w') = upserted_ids (sent w)"
  by (auto simp add: Mistral_GenerateEmbeddingsBatch_def Let_def http_Do_def upserted_ids_append
      split: response.splits option.splits if_splits)

lemma UpsertPoints_ids:
  "UpsertPoints cp pts w = (r, w') \<Longrightarrow>
   (upserted_ids (sent w') = upserted_ids (sent w) \<or>
    upserted_ids (sent w') = upserted_ids (sent w) @ map pt_ID pts) \<and>
   (r = Return (Inr ()) \<longrightarrow> upserted_ids (sent w') = upserted_ids (sent w) @ map pt_ID pts)"
  by (auto simp add: UpsertPoints_def Let_def http_Do_def upserted_ids_append
      split: response.splits option.splits if_splits)

lemma Search_ids:
  "Search cp v k n w = (r, w') \<Longrightarrow> upserted_ids (sent w') = upserted_ids (sent w)"
  by (auto simp add: Search_def Let_def http_Do_def upserted_ids_append
      split: response.splits option.splits if_splits)

lemma DeleteBySessionKey_ids:
  "DeleteBySessionKey cp k w = (r, w') \<Longrightarrow> upserted_ids (sent w') = upserted_ids (sent w)"
  by (auto simp add: DeleteBySessionKey_def Let_def http_Do_def upserted_ids_append
      split: response.splits option.splits if_splits)

lemma Mistral_embeds_only: "embeds_only (Mistral c)"
  unfolding embeds_only_def Mistral_def
  by (auto intro: Mistral_GenerateEmbedding_ids Mistral_GenerateEmbeddingsBatch_ids
      simp: prod_eq_iff)

lemma StoreMessage_ids:
  assumes ec: "quiet_embedder s"
    and inv: "ids_increasing s w"
    and room: "sint (pointCounter s) + 1 < 2 ^ 63"
    and call: "StoreMessage L k msg i s w = ((r, s'), w')"
  shows "ids_increasing s' w' \<and> embeddingClient s' = embeddingClient s \<and>
         sint (pointCounter s) \<le> sint (pointCounter s') \<and>
         sint (pointCounter s') \<le> sint (pointCounter s) + 1 \<and>
         (enabled s \<and> r = Return (Inr ()) \<longrightarrow>
            upserted_ids (sent w') = upserted_ids (sent w) @ [pointCounter s'] \<and>
            sint (pointCounter s') = sint (pointCounter s) + 1)"
proof (cases "enabled s \<and> embeddingClient s \<noteq> None")
  case False
  then have "StoreMessage L k msg i s w = ((Return (Inr ()), s), w) \<and> \<not> enabled s \<or>
      StoreMessage L k msg i s w = ((Panic nil_dereference, s), w)"
    by (auto simp add: StoreMessage_def)
  with call inv show ?thesis by auto
next
  case en: True
  then have True: "enabled s" by simp
  from en obtain c where c: "embeddingClient s = Some c" by auto
  with ec have quiet: "embeds_only c" by (simp add: quiet_embedder_def)
  obtain g w1 where g: "GenerateEmbedding c (Content msg) w = (g, w1)"
    by (cases "GenerateEmbedding c (Content msg) w")
  from quiet g have w1: "upserted_ids (sent w1) = upserted_ids (sent w)"
    by (auto simp add: embeds_only_def dest!: arg_cong [where f = "\<lambda>x. upserted_ids (sent (snd x))"])
  note ec = c
  show ?thesis
  proof (cases g)
    case (Inl e)
    with True ec g call inv w1 show ?thesis
      by (auto simp add: StoreMessage_def ids_increasing_def)
  next
    case (Inr vector)
    let ?w2 = "w1\<lparr>ticks := Suc (ticks w1)\<rparr>"
    let ?payload = "\<lparr>SessionKey = k, mp_Role = Role msg, mp_Content = Content msg,
                     Timestamp = now_at w1 (ticks w1), MessageIndex = i\<rparr>"
    show ?thesis
    proof (cases "structToMap L ?payload")
      case (Inl e)
      with True ec g call inv w1 Inr show ?thesis
        by (auto simp add: StoreMessage_def ids_increasing_def time_Now_def Let_def)
    next
      case pm: (Inr payloadMap)
      let ?s' = "s\<lparr>pointCounter := pointCounter s + 1\<rparr>"
      let ?point = "\<lparr>pt_ID = pointCounter s + 1, pt_Vector = vector, pt_Payload = payloadMap\<rparr>"
      obtain u w3 where u: "UpsertPoints (qdrantClient s) [?point] ?w2 = (u, w3)"
        by (cases "UpsertPoints (qdrantClient s) [?point] ?w2")
      from True ec g call Inr pm u have res: "s' = ?s'" "w' = w3"
        and ru: "r = Return (Inr ()) \<longrightarrow> u = Return (Inr ())"
        by (auto simp add: StoreMessage_def time_Now_def Let_def
            split: go.splits sum.splits)
      from room have s1: "sint (pointCounter s + 1) = sint (pointCounter s) + 1"
        by (rule sint_succ)
      from UpsertPoints_ids [OF u] w1
      have ids: "upserted_ids (sent w3) = upserted_ids (sent w) \<or>
                 upserted_ids (sent w3) = upserted_ids (sent w) @ [pointCounter s + 1]"
        and ok: "u = Return (Inr ()) \<longrightarrow>
                 upserted_ids (sent w3) = upserted_ids (sent w) @ [pointCounter s + 1]"
        by auto
      from inv have old: "sorted_wrt (<) (map sint (upserted_ids (sent w)))"
        "\<forall>x \<in> set (upserted_ids (sent w)). sint x \<le> sint (pointCounter s)"
        by (auto simp: ids_increasing_def)
      have ext: "sorted_wrt (<) (map sint (upserted_ids (sent w) @ [pointCounter s + 1])) \<and>
          (\<forall>x \<in> set (upserted_ids (sent w) @ [pointCounter s + 1]). sint x \<le> sint (pointCounter s) + 1)"
        using old s1 by (intro ids_extend [where c = "sint (pointCounter s)"]) auto
      from ids ext old s1 have "ids_increasing ?s' w3"
        by (auto simp add: ids_increasing_def)
      with res s1 ok ru show ?thesis by auto
    qed
  qed
qed


lemma StoreMessages_ids:
  assumes ec: "quiet_embedder s"
    and inv: "ids_increasing s w"
    and room: "sint (pointCounter s) + int (length msgs) < 2 ^ 63"
    and call: "StoreMessages L msgs s w = ((r, s'), w')"
  shows "ids_increasing s' w' \<and> embeddingClient s' = embeddingClient s \<and>
         sint (pointCounter s) \<le> sint (pointCounter s') \<and>
         sint (pointCounter s') \<le> sint (pointCounter s) + int (length msgs) \<and>
         (enabled s \<and> r = Return (Inr ()) \<longrightarrow>
            (\<exists>new. upserted_ids (sent w') = upserted_ids (sent w) @ new \<and>
               length new = length msgs \<and>
               (\<forall>x \<in> set new. sint (pointCounter s) < sint x)))"
proof (cases "enabled s \<and> embeddingClient s \<noteq> None")
  case False
  then have "StoreMessages L msgs s w = ((Return (Inr ()), s), w) \<and> \<not> enabled s \<or>
      StoreMessages L msgs s w = ((Panic nil_dereference, s), w)"
    by (auto simp add: StoreMessages_def)
  with call inv show ?thesis by auto
next
  case en: True
  then have True: "enabled s" by simp
  from en obtain c where c: "embeddingClient s = Some c" by auto
  with ec have quiet: "embeds_only c" by (simp add: quiet_embedder_def)
  let ?texts = "map (\<lambda>m. Content (sm_Message m)) msgs"
  obtain g w1 where g: "GenerateEmbeddingsBatch c ?texts w = (g, w1)"
    by (cases "GenerateEmbeddingsBatch c ?texts w")
  from quiet g have w1: "upserted_ids (sent w1) = upserted_ids (sent w)"
    by (auto simp add: embeds_only_def dest!: arg_cong [where f = "\<lambda>x. upserted_ids (sent (snd x))"])
  note ec = c
  show ?thesis
  proof (cases g)
    case (Inl e)
    with True ec g call inv w1 show ?thesis
      by (auto simp add: StoreMessages_def ids_increasing_def)
  next
    case (Inr vectors)
    obtain cr ctr where cp: "create_points L vectors msgs 0 (pointCounter s) [] = (cr, ctr)"
      by (cases "create_points L vectors msgs 0 (pointCounter s) []")
    note cpi = create_points_ids [OF cp room]
    from cpi have mono: "sint (pointCounter s) \<le> sint ctr"
      "sint ctr \<le> sint (pointCounter s) + int (length msgs)" by auto
    from inv have old: "sorted_wrt (<) (map sint (upserted_ids (sent w)))"
      "\<forall>x \<in> set (upserted_ids (sent w)). sint x \<le> sint (pointCounter s)"
      by (auto simp: ids_increasing_def)
    show ?thesis
    proof (cases cr)
      case (Panic x)
      with True ec g call Inr cp have "s' = s\<lparr>pointCounter := ctr\<rparr>" "w' = w1" "r = Panic x"
        by (auto simp add: StoreMessages_def Let_def)
      with mono old w1 show ?thesis by (auto simp: ids_increasing_def)
    next
      case (Return res)
      show ?thesis
      proof (cases res)
        case (Inl e)
        with Return True ec g call Inr cp
        have "s' = s\<lparr>pointCounter := ctr\<rparr>" "w' = w1" "r = Return (Inl e)"
          by (auto simp add: StoreMessages_def Let_def)
        with mono old w1 show ?thesis by (auto simp: ids_increasing_def)
      next
        case pts: (Inr points)
        obtain u w2 where u: "UpsertPoints (qdrantClient s) points w1 = (u, w2)"
          by (cases "UpsertPoints (qdrantClient s) points w1")
        from pts Return True ec g call Inr cp u
        have res: "s' = s\<lparr>pointCounter := ctr\<rparr>" "w' = w2"
          and ru: "r = Return (Inr ()) \<longrightarrow> u = Return (Inr ())"
          by (auto simp add: StoreMessages_def Let_def split: go.splits sum.splits)
        from cpi pts Return
        have new: "length points = length msgs"
          "sorted_wrt (<) (map (\<lambda>p. sint (pt_ID p)) points)"
          "\<forall>p \<in> set points. sint (pointCounter s) < sint (pt_ID p) \<and> sint (pt_ID p) \<le> sint ctr"
          by auto
        from new have new': "sorted_wrt (<) (map sint (map pt_ID points))"
          "\<forall>x \<in> set (map pt_ID points). sint (pointCounter s) < sint x \<and> sint x \<le> sint ctr"
          by (auto simp add: comp_def)
        have ext: "sorted_wrt (<) (map sint (upserted_ids (sent w) @ map pt_ID points)) \<and>
            (\<forall>x \<in> set (upserted_ids (sent w) @ map pt_ID points). sint x \<le> sint ctr)"
          using old mono new' by (intro ids_extend [where c = "sint (pointCounter s)"]) auto
        from UpsertPoints_ids [OF u] w1
        have ids: "upserted_ids (sent w2) = upserted_ids (sent w) \<or>
                   upserted_ids (sent w2) = upserted_ids (sent w) @ map pt_ID points"
          and ok: "u = Return (Inr ()) \<longrightarrow>
                   upserted_ids (sent w2) = upserted_ids (sent w) @ map pt_ID points"
          by auto
        from ids ext old mono have "ids_increasing (s\<lparr>pointCounter := ctr\<rparr>) w2"
          by (auto simp add: ids_increasing_def)
        moreover have "enabled s \<and> r = Return (Inr ()) \<longrightarrow>
            (\<exists>new. upserted_ids (sent w2) = upserted_ids (sent w) @ new \<and>
               length new = length msgs \<and>
               (\<forall>x \<in> set new. sint (pointCounter s) < sint x))"
          using ok ru new new' by (intro impI exI [of _ "map pt_ID points"]) auto
        ultimately show ?thesis using res mono by auto
      qed
    qed
  qed
qed

lemma search_ids:
  assumes "quiet_embedder s"
  shows "MS_SearchSimilarMessages L k q n s w = (r, w') \<Longrightarrow>
           upserted_ids (sent w') = upserted_ids (sent w)"
    and "SearchSimilarMessagesWithPayload L k q n s w = (r', w') \<Longrightarrow>
           upserted_ids (sent w') = upserted_ids (sent w)"
proof -
  have emb: "\<And>c g w1. embeddingClient s = Some c \<Longrightarrow> GenerateEmbedding c q w = (g, w1) \<Longrightarrow>
      upserted_ids (sent w1) = upserted_ids (sent w)"
    using assms
    by (auto simp add: quiet_embedder_def embeds_only_def
        dest!: arg_cong [where f = "\<lambda>x. upserted_ids (sent (snd x))"])
  show "MS_SearchSimilarMessages L k q n s w = (r, w') \<Longrightarrow>
           upserted_ids (sent w') = upserted_ids (sent w)"
    by (auto simp add: MS_SearchSimilarMessages_def
        split: if_splits prod.splits sum.splits go.splits option.splits
        dest!: emb Search_ids)
  show "SearchSimilarMessagesWithPayload L k q n s w = (r', w') \<Longrightarrow>
           upserted_ids (sent w') = upserted_ids (sent w)"
    by (auto simp add: SearchSimilarMessagesWithPayload_def
        split: if_splits prod.splits sum.splits go.splits option.splits
        dest!: emb Search_ids)
qed

lemma delete_ids:
  "DeleteSessionMessages k s w = (r, w') \<Longrightarrow> upserted_ids (sent w') = upserted_ids (sent w)"
  by (auto simp add: DeleteSessionMessages_def
      split: if_splits prod.splits sum.splits go.splits dest!: DeleteBySessionKey_ids)

lemma run_op_ids:
  assumes ec: "quiet_embedder s"
    and inv: "ids_increasing s w"
    and room: "sint (pointCounter s) + int (demand op) < 2 ^ 63"
    and call: "run_op L op s w = ((b, s'), w')"
  shows "ids_increasing s' w' \<and> quiet_embedder s' \<and>
         sint (pointCounter s) \<le> sint (pointCounter s') \<and>
         sint (pointCounter s') \<le> sint (pointCounter s) + int (demand op)"
proof (cases op)
  case (OpStoreMessage k msg i)
  with call obtain r where "StoreMessage L k msg i s w = ((r, s'), w')"
    by (auto split: prod.splits)
  from StoreMessage_ids [OF ec inv _ this] room OpStoreMessage ec show ?thesis
    by (simp add: quiet_embedder_def)
next
  case (OpStoreMessages msgs)
  with call obtain r where "StoreMessages L msgs s w = ((r, s'), w')"
    by (auto split: prod.splits)
  from StoreMessages_ids [OF ec inv _ this] room OpStoreMessages ec show ?thesis
    by (simp add: quiet_embedder_def)
next
  case (OpSearch k q n)
  with call obtain r where "MS_SearchSimilarMessages L k q n s w = (r, w')" and "s' = s"
    by (auto split: prod.splits)
  with search_ids(1) [OF ec] inv OpSearch ec show ?thesis
    by (auto simp add: ids_increasing_def)
next
  case (OpSearchWithPayload k q n)
  with call obtain r where "SearchSimilarMessagesWithPayload L k q n s w = (r, w')" and "s' = s"
    by (auto split: prod.splits)
  with search_ids(2) [OF ec] inv OpSearchWithPayload ec show ?thesis
    by (auto simp add: ids_increasing_def)
next
  case (OpDelete k)
  with call obtain r where "DeleteSessionMessages k s w = (r, w')" and "s' = s"
    by (auto split: prod.splits)
  with delete_ids inv OpDelete ec show ?thesis
    by (auto simp add: ids_increasing_def)
qed

lemma run_ids:
  assumes "quiet_embedder s"
    and "ids_increasing s w"
    and "sint (pointCounter s) + int (sum_list (map demand ops)) < 2 ^ 63"
    and "run L ops s w = (s', w')"
  shows "ids_increasing s' w' \<and> sint (pointCounter s) \<le> sint (pointCounter s')"
  using assms
proof (induction ops arbitrary: s w)
  case Nil
  then show ?case by simp
next
  case (Cons op ops)
  obtain b s1 w1 where step: "run_op L op s w = ((b, s1), w1)"
    by (cases "run_op L op s w") auto
  from Cons.prems(3) have room1: "sint (pointCounter s) + int (demand op) < 2 ^ 63" by simp
  note st = run_op_ids [OF Cons.prems(1,2) room1 step]
  show ?case
  proof (cases b)
    case True
    with step Cons.prems(4) st show ?thesis by simp
  next
    case False
    with step Cons.prems(4) have rest: "run L ops s1 w1 = (s', w')" by simp
    from st have ec1: "quiet_embedder s1" by simp
    from st Cons.prems(3)
    have room: "sint (pointCounter s1) + int (sum_list (map demand ops)) < 2 ^ 63" by simp
    from st have inv1: "ids_increasing s1 w1" by simp
    from Cons.IH [OF ec1 inv1 room rest] st show ?thesis by simp
  qed
qed

lemma ids_increasing_distinct: "ids_increasing s w \<Longrightarrow> distinct (upserted_ids (sent w))"
proof -
  assume "ids_increasing s w"
  then have "sorted_wrt (<) (map sint (upserted_ids (sent w)))"
    by (simp add: ids_increasing_def)
  then have "distinct (map sint (upserted_ids (sent w)))"
    by (simp add: strict_sorted_iff)
  then show ?thesis by (simp add: distinct_map)
qed


lemma NewMessageStore_fresh:
  assumes "NewMessageStore cfg w = (Inr s, w')" and "upserted_ids (sent w) = []"
  shows "pointCounter s = 0 \<and> ids_increasing s w' \<and> quiet_embedder s"
  using assms
  by (auto simp add: quiet_embedder_def Mistral_embeds_only NewMessageStore_def Let_def CreateCollection_def CollectionExists_def
      http_Do_def ids_increasing_def upserted_ids_append
      split: if_splits prod.splits sum.splits option.splits response.splits bool.splits)

text \<open>
  Claim C8. Take a store whose embedding client sends no upsert of its own (the
  Mistral client is one), at a moment when the identifiers upserted so far increase
  strictly and none exceeds the counter (as after \<open>NewMessageStore\<close>, see
  \<open>NewMessageStore_fresh\<close>), and a run whose operations ask
  for fewer identifiers than remain below \<open>2^63\<close>, the range of the 64-bit counter.
  Then after the run the identifiers upserted, read as signed integers in the order
  they were sent, still increase strictly, so no two are equal; none exceeds the
  counter; and the counter has not decreased. At the start of the run (hence at every
  moment of it), a successful \<open>StoreMessage\<close> upserts one point, whose identifier is
  the new counter and is greater than every identifier before, and a successful
  \<open>StoreMessages\<close> upserts one point for each message, each identifier greater than
  every identifier before.
\<close>

theorem point_identifiers_increase:
  assumes client: "quiet_embedder s"
    and inv: "ids_increasing s w"
    and room: "sint (pointCounter s) + int (sum_list (map demand ops)) < 2 ^ 63"
    and run: "run L ops s w = (s', w')"
  shows "sorted_wrt (<) (map sint (upserted_ids (sent w'))) \<and>
         distinct (upserted_ids (sent w')) \<and>
         (\<forall>i \<in> set (upserted_ids (sent w')). sint i \<le> sint (pointCounter s')) \<and>
         sint (pointCounter s) \<le> sint (pointCounter s') \<and>
         (\<forall>k msg i s1 w1.
            enabled s \<and> sint (pointCounter s) + 1 < 2 ^ 63 \<and>
            StoreMessage L k msg i s w = ((Return (Inr ()), s1), w1) \<longrightarrow>
            upserted_ids (sent w1) = upserted_ids (sent w) @ [pointCounter s1] \<and>
            (\<forall>x \<in> set (upserted_ids (sent w)). sint x < sint (pointCounter s1))) \<and>
         (\<forall>msgs s1 w1.
            enabled s \<and> sint (pointCounter s) + int (length msgs) < 2 ^ 63 \<and>
            StoreMessages L msgs s w = ((Return (Inr ()), s1), w1) \<longrightarrow>
            (\<exists>new. upserted_ids (sent w1) = upserted_ids (sent w) @ new \<and>
               length new = length msgs \<and>
               (\<forall>y \<in> set new. \<forall>x \<in> set (upserted_ids (sent w)). sint x < sint y)))"
proof -
  from run_ids [OF client inv room run]
  have end_inv: "ids_increasing s' w'" and mono: "sint (pointCounter s) \<le> sint (pointCounter s')"
    by auto
  from inv have old: "\<forall>x \<in> set (upserted_ids (sent w)). sint x \<le> sint (pointCounter s)"
    by (simp add: ids_increasing_def)
  have one: "\<forall>k msg i s1 w1.
            enabled s \<and> sint (pointCounter s) + 1 < 2 ^ 63 \<and>
            StoreMessage L k msg i s w = ((Return (Inr ()), s1), w1) \<longrightarrow>
            upserted_ids (sent w1) = upserted_ids (sent w) @ [pointCounter s1] \<and>
            (\<forall>x \<in> set (upserted_ids (sent w)). sint x < sint (pointCounter s1))"
  proof (intro allI impI)
    fix k msg i s1 w1
    assume a: "enabled s \<and> sint (pointCounter s) + 1 < 2 ^ 63 \<and>
            StoreMessage L k msg i s w = ((Return (Inr ()), s1), w1)"
    then have "upserted_ids (sent w1) = upserted_ids (sent w) @ [pointCounter s1] \<and>
            sint (pointCounter s1) = sint (pointCounter s) + 1"
      using StoreMessage_ids [OF client inv, of L k msg i "Return (Inr ())" s1 w1] by simp
    with old show "upserted_ids (sent w1) = upserted_ids (sent w) @ [pointCounter s1] \<and>
            (\<forall>x \<in> set (upserted_ids (sent w)). sint x < sint (pointCounter s1))"
      by fastforce
  qed
  have many: "\<forall>msgs s1 w1.
            enabled s \<and> sint (pointCounter s) + int (length msgs) < 2 ^ 63 \<and>
            StoreMessages L msgs s w = ((Return (Inr ()), s1), w1) \<longrightarrow>
            (\<exists>new. upserted_ids (sent w1) = upserted_ids (sent w) @ new \<and>
               length new = length msgs \<and>
               (\<forall>y \<in> set new. \<forall>x \<in> set (upserted_ids (sent w)). sint x < sint y))"
  proof (intro allI impI)
    fix msgs s1 w1
    assume a: "enabled s \<and> sint (pointCounter s) + int (length msgs) < 2 ^ 63 \<and>
            StoreMessages L msgs s w = ((Return (Inr ()), s1), w1)"
    then obtain new where new: "upserted_ids (sent w1) = upserted_ids (sent w) @ new"
        "length new = length msgs" "\<forall>x \<in> set new. sint (pointCounter s) < sint x"
      using StoreMessages_ids [OF client inv, of msgs L "Return (Inr ())" s1 w1] by auto
    from new(3) old have "\<forall>y \<in> set new. \<forall>x \<in> set (upserted_ids (sent w)). sint x < sint y"
      by fastforce
    with new show "\<exists>new. upserted_ids (sent w1) = upserted_ids (sent w) @ new \<and>
               length new = length msgs \<and>
               (\<forall>y \<in> set new. \<forall>x \<in> set (upserted_ids (sent w)). sint x < sint y)"
      by blast
  qed
  from end_inv have "sorted_wrt (<) (map sint (upserted_ids (sent w')))"
    and "\<forall>i \<in> set (upserted_ids (sent w')). sint i \<le> sint (pointCounter s')"
    by (simp_all add: ids_increasing_def)
  with ids_increasing_distinct [OF end_inv] mono one many show ?thesis
    by blast
qed

lemma example_run_ids:
  "upserted_ids (sent (snd (run example_lib example_run example_store example_world))) = [1, 2, 3] \<and>
   pointCounter (fst (run example_lib example_run example_store example_world)) = 3"
  by (simp add: example_store_def example_world_def example_lib_def example_embedding_def
      example_config_def example_stored_def example_body_def plain_message_def
      NewMistralEmbeddingClient_def example_run_def StoreMessage_def StoreMessages_def MS_SearchSimilarMessages_def Search_def time_Now_def Mistral_def Mistral_GenerateEmbedding_def
      Mistral_GenerateEmbeddingsBatch_def
      http_Do_def Let_def structToMap_def UpsertPoints_def collection_url_def NewQdrantClient_def Sprintf_d_def)

theorem point_identifiers_increase_witness:
  "quiet_embedder example_store \<and>
   ids_increasing example_store example_world \<and>
   sint (pointCounter example_store) + int (sum_list (map demand example_run)) < 2 ^ 63 \<and>
   upserted_ids (sent (snd (run example_lib example_run example_store example_world))) = [1, 2, 3] \<and>
   distinct (upserted_ids (sent (snd (run example_lib example_run example_store example_world)))) \<and>
   pointCounter (fst (run example_lib example_run example_store example_world)) = 3"
proof -
  have c: "quiet_embedder example_store"
    by (simp add: example_store_def quiet_embedder_def Mistral_embeds_only)
  have i: "ids_increasing example_store example_world"
    by (simp add: ids_increasing_def example_world_def)
  have r: "sint (pointCounter example_store) + int (sum_list (map demand example_run)) < 2 ^ 63"
    by (simp add: example_store_def example_run_def)
  from point_identifiers_increase [OF c i r, of example_lib _ _] example_run_ids c i r
  show ?thesis
    by (metis prod.collapse)
qed

end
